theory Spec2Isabelle
  imports Complex_Main "HOL-Library.AList"
begin

section \<open>Python values\<close>

text \<open>
  The client of \<^verbatim>\<open>src/alterlab/client.py\<close> handles the documents that
  \<^verbatim>\<open>response.json()\<close> returns and the dictionaries it sends as request bodies.
  Both are Python values built from \<^verbatim>\<open>None\<close>, booleans, numbers, strings,
  lists and dictionaries. A dictionary is an association list; a lookup takes the first
  binding of a key, and the dictionaries built here never bind a key twice.
  Python's \<^verbatim>\<open>float\<close> is modelled by \<open>real\<close>.
\<close>

datatype json =
    JNull
  | JBool bool
  | JInt int
  | JFloat real
  | JStr string
  | JList "json list"
  | JObj "(string \<times> json) list"

type_synonym dict = "(string \<times> json) list"

text \<open>\<^verbatim>\<open>d.get(k, default)\<close> and \<^verbatim>\<open>d.get(k)\<close> on a dictionary.\<close>

definition get_default :: "dict \<Rightarrow> string \<Rightarrow> json \<Rightarrow> json" where
  "get_default d k dflt = (case map_of d k of None \<Rightarrow> dflt | Some v \<Rightarrow> v)"

definition get :: "dict \<Rightarrow> string \<Rightarrow> json" where
  "get d k = get_default d k JNull"

text \<open>Python's truth value of an object, as \<^verbatim>\<open>if x:\<close> and \<^verbatim>\<open>x or y\<close> test it.\<close>

fun truthy :: "json \<Rightarrow> bool" where
  "truthy JNull = False"
| "truthy (JBool b) = b"
| "truthy (JInt i) = (i \<noteq> 0)"
| "truthy (JFloat r) = (r \<noteq> 0)"
| "truthy (JStr s) = (s \<noteq> [])"
| "truthy (JList xs) = (xs \<noteq> [])"
| "truthy (JObj d) = (d \<noteq> [])"

section \<open>HTTP responses and exceptions\<close>

text \<open>
  What the client reads of an \<^verbatim>\<open>httpx.Response\<close>: the status code, the headers, the
  body text, and the value of \<^verbatim>\<open>response.json()\<close> (\<open>None\<close> when the body is not
  JSON and the call raises).
\<close>

record response =
  resp_status_code :: int
  resp_headers :: "(string \<times> string) list"
  resp_text :: string
  resp_json :: "json option"

text \<open>
  The exception classes of the module, each with the arguments its constructor stores.
  \<open>TimeoutError\<close> keeps the two values its message interpolates, the job id and the
  poll timeout: the message is
  \<^verbatim>\<open>f"Job {job_id} did not complete within {poll_timeout} seconds"\<close>.
  The remaining constructors are the exceptions of the Python runtime that the module's
  code can raise without catching, and \<open>ScriptExhausted\<close>, which is what the scripted
  environment below answers when it has nothing left to return.
\<close>

datatype error =
    AlterLabError string
  | AlterLabAPIError int json "response option"
  | AuthenticationError int json "response option"
  | InsufficientCreditsError int json "response option"
  | RateLimitError json "int option" "response option"
  | ValidationError int json "response option"
  | ScrapeError int json "string option"
  | TimeoutError json real
  | PyValueError
  | PyAttributeError
  | PyTypeError
  | PyKeyError
  | JSONDecodeError
  | ScriptExhausted

text \<open>
  The builtins \<^verbatim>\<open>float(s)\<close> and \<^verbatim>\<open>int(s)\<close> on a string and \<^verbatim>\<open>str(v)\<close>
  on a value are Python's own; they are parameters of the model. \<open>None\<close> stands for
  the \<^verbatim>\<open>ValueError\<close> that the first two raise on a string that is not a number.
  An f-string inserts a string as it is and any other value through \<^verbatim>\<open>str\<close>.
\<close>

record builtins =
  py_float :: "string \<Rightarrow> real option"
  py_int :: "string \<Rightarrow> int option"
  py_str :: "json \<Rightarrow> string"

fun fstr :: "builtins \<Rightarrow> json \<Rightarrow> string" where
  "fstr py (JStr s) = s"
| "fstr py v = py_str py v"

section \<open>The client and its environment\<close>

record client =
  timeout :: int
  max_retries :: int
  retry_delay :: real

text \<open>
  The environment of a call is scripted, as a test with a mocked HTTP client and a mocked
  clock scripts it: \<open>responses\<close> holds what the successive calls of
  \<^verbatim>\<open>client.request\<close> will produce, a response or one of the two httpx exceptions
  the transport catches. The world also keeps a trace of what the call did to its
  environment, in order: every request sent, and the argument of every call of
  \<^verbatim>\<open>time.sleep\<close> (or \<^verbatim>\<open>asyncio.sleep\<close>).
\<close>

datatype outcome =
    Response response
  | TimeoutException string
  | NetworkError string

record request =
  req_method :: string
  req_path :: string
  req_json :: "json option"

datatype event =
    Sent request
  | Slept real

record world =
  responses :: "outcome list"
  trace :: "event list"

fun sleeps :: "event list \<Rightarrow> real list" where
  "sleeps [] = []"
| "sleeps (Slept d # es) = d # sleeps es"
| "sleeps (Sent rq # es) = sleeps es"

fun requests :: "event list \<Rightarrow> request list" where
  "requests [] = []"
| "requests (Slept d # es) = requests es"
| "requests (Sent rq # es) = rq # requests es"

definition client_request :: "request \<Rightarrow> world \<Rightarrow> outcome option \<times> world" where
  "client_request rq w =
     (case responses w of
        [] \<Rightarrow> (None, w\<lparr>trace := trace w @ [Sent rq]\<rparr>)
      | x # xs \<Rightarrow> (Some x, w\<lparr>responses := xs, trace := trace w @ [Sent rq]\<rparr>))"

definition time_sleep :: "real \<Rightarrow> world \<Rightarrow> world" where
  "time_sleep d w = w\<lparr>trace := trace w @ [Slept d]\<rparr>"

section \<open>Transport with retry\<close>

text \<open>
  \<^verbatim>\<open>AlterLab._handle_error_response\<close>. The detail is the \<^verbatim>\<open>detail\<close> entry of a
  JSON object body and the body text otherwise (any exception of the lookup is caught).
  \<open>Inr ()\<close> is the normal return, for a status below 400.
\<close>

definition error_detail :: "response \<Rightarrow> json" where
  "error_detail r =
     (case resp_json r of
        Some (JObj d) \<Rightarrow> get_default d ''detail'' (JStr (resp_text r))
      | _ \<Rightarrow> JStr (resp_text r))"

definition handle_error_response :: "builtins \<Rightarrow> response \<Rightarrow> error + unit" where
  "handle_error_response py r =
     (let detail = error_detail r in
      if resp_status_code r = 401 then Inl (AuthenticationError 401 detail (Some r))
      else if resp_status_code r = 402 then Inl (InsufficientCreditsError 402 detail (Some r))
      else if resp_status_code r = 422 then Inl (ValidationError 422 detail (Some r))
      else if resp_status_code r = 429 then
        (case map_of (resp_headers r) ''Retry-After'' of
           None \<Rightarrow> Inl (RateLimitError detail None (Some r))
         | Some ra \<Rightarrow>
             if ra = [] then Inl (RateLimitError detail None (Some r))
             else (case py_int py ra of
                     None \<Rightarrow> Inl PyValueError
                   | Some n \<Rightarrow> Inl (RateLimitError detail (Some n) (Some r))))
      else if resp_status_code r \<ge> 400 then
        Inl (AlterLabAPIError (resp_status_code r) detail (Some r))
      else Inr ())"

text \<open>
  \<^verbatim>\<open>AlterLab._request_with_retry\<close>. The loop
  \<^verbatim>\<open>for attempt in range(self.max_retries)\<close> is a recursion over the list of
  attempt numbers; \<open>last_error\<close> is the variable of that name. The
  \<^verbatim>\<open>raise last_error or AlterLabError(...)\<close> after the loop is the first equation.
\<close>

fun retry_loop ::
  "client \<Rightarrow> builtins \<Rightarrow> request \<Rightarrow> nat list \<Rightarrow> error option \<Rightarrow> world
     \<Rightarrow> (error + response) \<times> world" where
  "retry_loop c py rq [] last_error w =
     (Inl (case last_error of
             Some e \<Rightarrow> e
           | None \<Rightarrow> AlterLabError ''Request failed after retries''), w)"
| "retry_loop c py rq (attempt # rest) last_error w =
     (case client_request rq w of
        (None, w1) \<Rightarrow> (Inl ScriptExhausted, w1)
      | (Some (Response r), w1) \<Rightarrow>
          if resp_status_code r \<ge> 400 then
            (case (if 400 \<le> resp_status_code r \<and> resp_status_code r < 500
                      \<and> resp_status_code r \<noteq> 429
                   then handle_error_response py r else Inr ()) of
               Inl e \<Rightarrow> (Inl e, w1)
             | Inr _ \<Rightarrow>
                 (let last_error' = Some (AlterLabAPIError (resp_status_code r)
                                     (JStr (resp_text r)) (Some r))
                  in case map_of (resp_headers r) ''Retry-After'' of
                       None \<Rightarrow>
                         retry_loop c py rq rest last_error'
                           (time_sleep (retry_delay c * 2 ^ attempt) w1)
                     | Some ra \<Rightarrow>
                         if ra = [] then
                           retry_loop c py rq rest last_error'
                             (time_sleep (retry_delay c * 2 ^ attempt) w1)
                         else (case py_float py ra of
                                 None \<Rightarrow> (Inl PyValueError, w1)
                               | Some d \<Rightarrow>
                                   retry_loop c py rq rest last_error' (time_sleep d w1))))
          else (Inr r, w1)
      | (Some (TimeoutException e), w1) \<Rightarrow>
          retry_loop c py rq rest (Some (AlterLabError (''Network error: '' @ e)))
            (if int attempt < max_retries c - 1
             then time_sleep (retry_delay c * 2 ^ attempt) w1 else w1)
      | (Some (NetworkError e), w1) \<Rightarrow>
          retry_loop c py rq rest (Some (AlterLabError (''Network error: '' @ e)))
            (if int attempt < max_retries c - 1
             then time_sleep (retry_delay c * 2 ^ attempt) w1 else w1))"

definition request_with_retry ::
  "client \<Rightarrow> builtins \<Rightarrow> request \<Rightarrow> world \<Rightarrow> (error + response) \<times> world" where
  "request_with_retry c py rq w =
     retry_loop c py rq [0 ..< nat (max_retries c)] None w"

section \<open>Response parser\<close>

record TierEscalation =
  tier :: json
  esc_result :: json
  credits :: json
  duration_ms :: json
  esc_error :: json

record BillingDetails =
  total_credits :: json
  tier_used :: json
  escalations :: "TierEscalation list"
  savings :: json
  optimization_suggestion :: json
  byop_applied :: json
  byop_discount_percent :: json
  original_cost_microcents :: json
  final_cost_microcents :: json

record ScrapeResult =
  url :: json
  status_code :: json
  content :: json
  title :: json
  author :: json
  published_at :: json
  metadata :: json
  headers :: json
  cached :: json
  cached_at :: json
  expires_at :: json
  response_time_ms :: json
  size_bytes :: json
  raw_html :: json
  screenshot_url :: json
  pdf_url :: json
  ocr_results :: json
  proxy_used :: json
  filtered_content :: json
  billing :: "BillingDetails option"
  extraction_method :: json
  method_details :: json

text \<open>
  The fields hold whatever the payload holds: Python checks no annotation at run time.
  \<open>ScrapeResult_init\<close> is the dataclass constructor called with the three required
  fields only, every other field at its declared default.
\<close>

definition ScrapeResult_init :: "json \<Rightarrow> json \<Rightarrow> json \<Rightarrow> ScrapeResult" where
  "ScrapeResult_init u sc ct =
     \<lparr>url = u, status_code = sc, content = ct, title = JNull, author = JNull,
      published_at = JNull, metadata = JObj [], headers = JObj [], cached = JBool False,
      cached_at = JNull, expires_at = JNull, response_time_ms = JInt 0, size_bytes = JInt 0,
      raw_html = JNull, screenshot_url = JNull, pdf_url = JNull, ocr_results = JNull,
      proxy_used = JNull, filtered_content = JNull, billing = None,
      extraction_method = JStr ''algorithmic'', method_details = JNull\<rparr>"

text \<open>
  \<^verbatim>\<open>for e in x\<close>: a list yields its elements, a dictionary its keys, a string its
  characters; any other value is not iterable.
\<close>

fun py_iter :: "json \<Rightarrow> error + json list" where
  "py_iter (JList xs) = Inr xs"
| "py_iter (JObj d) = Inr (map (\<lambda>kv. JStr (fst kv)) d)"
| "py_iter (JStr s) = Inr (map (\<lambda>ch. JStr [ch]) s)"
| "py_iter v = Inl PyTypeError"

text \<open>
  One element of the comprehension over the escalations: \<^verbatim>\<open>e.get\<close> exists on a
  dictionary only.
\<close>

fun parse_escalation :: "json \<Rightarrow> error + TierEscalation" where
  "parse_escalation (JObj e) =
     Inr \<lparr>tier = get_default e ''tier'' (JStr ''1''),
          esc_result = get_default e ''result'' (JStr ''success''),
          credits = get_default e ''credits'' (JInt 0),
          duration_ms = get e ''duration_ms'',
          esc_error = get e ''error''\<rparr>"
| "parse_escalation v = Inl PyAttributeError"

fun parse_escalations :: "json list \<Rightarrow> error + TierEscalation list" where
  "parse_escalations [] = Inr []"
| "parse_escalations (e # es) =
     (case parse_escalation e of
        Inl x \<Rightarrow> Inl x
      | Inr t \<Rightarrow> (case parse_escalations es of
                    Inl x \<Rightarrow> Inl x
                  | Inr ts \<Rightarrow> Inr (t # ts)))"

text \<open>
  \<^verbatim>\<open>AlterLab._parse_scrape_response\<close>. The billing details are built first, their
  arguments evaluated in the order written; the only one that can raise on a dictionary
  is the comprehension over the escalations.
\<close>

definition parse_billing :: "dict \<Rightarrow> error + BillingDetails" where
  "parse_billing billing_data =
     (case py_iter (get_default billing_data ''escalations'' (JList [])) of
        Inl x \<Rightarrow> Inl x
      | Inr es \<Rightarrow>
          (case parse_escalations es of
             Inl x \<Rightarrow> Inl x
           | Inr ts \<Rightarrow>
               Inr \<lparr>total_credits = get_default billing_data ''total_credits'' (JInt 0),
                    tier_used = get_default billing_data ''tier_used'' (JStr ''1''),
                    escalations = ts,
                    savings = get_default billing_data ''savings'' (JInt 0),
                    optimization_suggestion = get billing_data ''optimization_suggestion'',
                    byop_applied = get_default billing_data ''byop_applied'' (JBool False),
                    byop_discount_percent = get billing_data ''byop_discount_percent'',
                    original_cost_microcents = get billing_data ''original_cost_microcents'',
                    final_cost_microcents = get billing_data ''final_cost_microcents''\<rparr>))"

definition parse_scrape_response :: "json \<Rightarrow> error + ScrapeResult" where
  "parse_scrape_response data =
     (case data of
        JObj d \<Rightarrow>
          (case get_default d ''billing'' (JObj []) of
             JObj billing_data \<Rightarrow>
               (case parse_billing billing_data of
                  Inl x \<Rightarrow> Inl x
                | Inr b \<Rightarrow>
                    Inr \<lparr>url = get_default d ''url'' (JStr []),
                         status_code = get_default d ''status_code'' (JInt 200),
                         content = get_default d ''content'' (JStr []),
                         title = get d ''title'',
                         author = get d ''author'',
                         published_at = get d ''published_at'',
                         metadata = get_default d ''metadata'' (JObj []),
                         headers = get_default d ''headers'' (JObj []),
                         cached = get_default d ''cached'' (JBool False),
                         cached_at = get d ''cached_at'',
                         expires_at = get d ''expires_at'',
                         response_time_ms = get_default d ''response_time_ms'' (JInt 0),
                         size_bytes = get_default d ''size_bytes'' (JInt 0),
                         raw_html = get d ''raw_html'',
                         screenshot_url = get d ''screenshot_url'',
                         pdf_url = get d ''pdf_url'',
                         ocr_results = get d ''ocr_results'',
                         proxy_used = get d ''proxy_used'',
                         filtered_content = get d ''filtered_content'',
                         billing = Some b,
                         extraction_method = get_default d ''extraction_method''
                                               (JStr ''algorithmic''),
                         method_details = get d ''method_details''\<rparr>)
           | _ \<Rightarrow> Inl PyAttributeError)
      | _ \<Rightarrow> Inl PyAttributeError)"

section \<open>Request builder\<close>

record AdvancedOptions =
  render_js :: bool
  screenshot :: bool
  markdown :: bool
  generate_pdf :: bool
  ocr :: bool
  use_proxy :: bool
  use_own_proxy :: bool
  use_system_proxy :: bool
  proxy_integration_id :: "string option"
  proxy_country :: "string option"
  wait_condition :: string
  remove_cookie_banners :: bool

text \<open>\<^verbatim>\<open>AdvancedOptions.__post_init__\<close>: the checks made when an object is constructed.\<close>

definition AdvancedOptions_post_init :: "AdvancedOptions \<Rightarrow> error + AdvancedOptions" where
  "AdvancedOptions_post_init a =
     (if screenshot a \<and> \<not> render_js a then Inl PyValueError
      else if generate_pdf a \<and> \<not> render_js a then Inl PyValueError
      else if wait_condition a \<notin> {''domcontentloaded'', ''networkidle'', ''load''}
      then Inl PyValueError
      else Inr a)"

text \<open>An optional string as a Python value: \<^verbatim>\<open>None\<close> or the string.\<close>

fun opt_str :: "string option \<Rightarrow> json" where
  "opt_str None = JNull"
| "opt_str (Some s) = JStr s"

text \<open>\<^verbatim>\<open>AdvancedOptions.to_dict\<close>: a dictionary literal of all twelve fields.\<close>

definition AdvancedOptions_to_dict :: "AdvancedOptions \<Rightarrow> dict" where
  "AdvancedOptions_to_dict a =
     [(''render_js'', JBool (render_js a)),
      (''screenshot'', JBool (screenshot a)),
      (''markdown'', JBool (markdown a)),
      (''generate_pdf'', JBool (generate_pdf a)),
      (''ocr'', JBool (ocr a)),
      (''use_proxy'', JBool (use_proxy a)),
      (''use_own_proxy'', JBool (use_own_proxy a)),
      (''use_system_proxy'', JBool (use_system_proxy a)),
      (''proxy_integration_id'', opt_str (proxy_integration_id a)),
      (''proxy_country'', opt_str (proxy_country a)),
      (''wait_condition'', JStr (wait_condition a)),
      (''remove_cookie_banners'', JBool (remove_cookie_banners a))]"

record CostControls =
  max_tier :: "string option"
  prefer_cost :: bool
  prefer_speed :: bool
  fail_fast :: bool

text \<open>
  \<^verbatim>\<open>CostControls.to_dict\<close>. An assignment \<^verbatim>\<open>d[k] = v\<close> is \<open>AList.update\<close>: it
  replaces the value of a key that is bound and appends the binding otherwise.
\<close>

definition CostControls_to_dict :: "CostControls \<Rightarrow> dict" where
  "CostControls_to_dict cc =
     (let result = [(''prefer_cost'', JBool (prefer_cost cc)),
                    (''prefer_speed'', JBool (prefer_speed cc)),
                    (''fail_fast'', JBool (fail_fast cc))]
      in case max_tier cc of
           None \<Rightarrow> result
         | Some t \<Rightarrow> if t \<noteq> [] then AList.update ''max_tier'' (JStr t) result else result)"

text \<open>The keyword arguments of \<^verbatim>\<open>_build_scrape_payload\<close> (and of \<^verbatim>\<open>scrape\<close>).\<close>

record scrape_args =
  arg_url :: string
  arg_mode :: string
  arg_sync :: bool
  arg_advanced :: "AdvancedOptions option"
  arg_cost_controls :: "CostControls option"
  arg_cache :: bool
  arg_cache_ttl :: "int option"
  arg_force_refresh :: bool
  arg_include_raw_html :: bool
  arg_timeout :: "int option"
  arg_formats :: "string list option"
  arg_extraction_schema :: "dict option"
  arg_extraction_prompt :: "string option"
  arg_extraction_profile :: "string option"
  arg_evidence :: bool
  arg_promote_schema_org :: bool
  arg_wait_for :: "string option"
  arg_screenshot :: bool
  arg_wait_until :: string
  arg_enable_scroll :: "bool option"
  arg_pdf_format :: string
  arg_ocr_language :: string

text \<open>
  \<^verbatim>\<open>AlterLab._build_scrape_payload\<close>. Each conditional assignment of the source is
  one step applied to the payload built so far: the step is the assignment when the
  condition holds and leaves the payload as it is otherwise. Each \<^verbatim>\<open>if x:\<close> tests
  the truth value of the argument: an object of a dataclass is true, a string, a list or
  a dictionary is true when it is not empty; \<^verbatim>\<open>timeout or self.timeout\<close> takes the
  client's timeout for \<^verbatim>\<open>None\<close> and for \<open>0\<close>.
\<close>

definition build_scrape_payload :: "client \<Rightarrow> scrape_args \<Rightarrow> dict" where
  "build_scrape_payload c a =
     (let payload =
            [(''url'', JStr (arg_url a)),
             (''mode'', JStr (arg_mode a)),
             (''sync'', JBool (arg_sync a)),
             (''cache'', JBool (arg_cache a)),
             (''force_refresh'', JBool (arg_force_refresh a)),
             (''include_raw_html'', JBool (arg_include_raw_html a)),
             (''timeout'', JInt (case arg_timeout a of
                                   None \<Rightarrow> timeout c
                                 | Some t \<Rightarrow> if t \<noteq> 0 then t else timeout c)),
             (''evidence'', JBool (arg_evidence a)),
             (''promote_schema_org'', JBool (arg_promote_schema_org a)),
             (''wait_until'', JStr (arg_wait_until a))];
          payload = (case arg_cache_ttl a of
                       None \<Rightarrow> id
                     | Some t \<Rightarrow> AList.update ''cache_ttl'' (JInt t)) payload;
          payload = (case arg_advanced a of
                       None \<Rightarrow> id
                     | Some adv \<Rightarrow>
                         AList.update ''advanced'' (JObj (AdvancedOptions_to_dict adv))) payload;
          payload = (case arg_cost_controls a of
                       None \<Rightarrow> id
                     | Some cc \<Rightarrow>
                         AList.update ''cost_controls'' (JObj (CostControls_to_dict cc))) payload;
          payload = (case arg_formats a of
                       None \<Rightarrow> id
                     | Some fs \<Rightarrow>
                         if fs \<noteq> [] then AList.update ''formats'' (JList (map JStr fs))
                         else id) payload;
          payload = (case arg_extraction_schema a of
                       None \<Rightarrow> id
                     | Some sch \<Rightarrow>
                         if sch \<noteq> [] then AList.update ''extraction_schema'' (JObj sch)
                         else id) payload;
          payload = (case arg_extraction_prompt a of
                       None \<Rightarrow> id
                     | Some p \<Rightarrow>
                         if p \<noteq> [] then AList.update ''extraction_prompt'' (JStr p)
                         else id) payload;
          payload = (case arg_extraction_profile a of
                       None \<Rightarrow> id
                     | Some p \<Rightarrow>
                         if p \<noteq> [] then AList.update ''extraction_profile'' (JStr p)
                         else id) payload;
          payload = (case arg_wait_for a of
                       None \<Rightarrow> id
                     | Some s \<Rightarrow>
                         if s \<noteq> [] then AList.update ''wait_for'' (JStr s)
                         else id) payload;
          payload = (if arg_screenshot a
                     then AList.update ''screenshot'' (JBool (arg_screenshot a))
                     else id) payload;
          payload = (case arg_enable_scroll a of
                       None \<Rightarrow> id
                     | Some b \<Rightarrow> AList.update ''enable_scroll'' (JBool b)) payload;
          payload = (if arg_mode a = ''pdf''
                     then AList.update ''pdf_format'' (JStr (arg_pdf_format a))
                     else id) payload;
          payload = (if arg_mode a = ''ocr''
                     then AList.update ''ocr_language'' (JStr (arg_ocr_language a))
                     else id) payload
      in payload)"

section \<open>Job poller\<close>

record JobStatus =
  job_id :: json
  status :: json
  result :: "ScrapeResult option"
  error :: json

text \<open>
  \<^verbatim>\<open>AlterLab.get_job_status\<close>. \<^verbatim>\<open>data.get\<close> exists on a dictionary only; the
  embedded result is parsed when the status is \<^verbatim>\<open>succeeded\<close> or \<^verbatim>\<open>completed\<close>
  and the \<^verbatim>\<open>result\<close> entry is true.
\<close>

definition get_job_status ::
  "client \<Rightarrow> builtins \<Rightarrow> json \<Rightarrow> world \<Rightarrow> (error + JobStatus) \<times> world" where
  "get_job_status c py jid w =
     (case request_with_retry c py
             \<lparr>req_method = ''GET'', req_path = ''/api/v1/jobs/'' @ fstr py jid,
              req_json = None\<rparr> w of
        (Inl e, w1) \<Rightarrow> (Inl e, w1)
      | (Inr r, w1) \<Rightarrow>
          (case resp_json r of
             None \<Rightarrow> (Inl JSONDecodeError, w1)
           | Some (JObj d) \<Rightarrow>
               if (get d ''status'' = JStr ''succeeded'' \<or> get d ''status'' = JStr ''completed'')
                  \<and> truthy (get d ''result'')
               then (case parse_scrape_response (get d ''result'') of
                       Inl e \<Rightarrow> (Inl e, w1)
                     | Inr res \<Rightarrow>
                         (Inr \<lparr>job_id = jid,
                               status = get_default d ''status'' (JStr ''pending''),
                               result = Some res,
                               error = get d ''error''\<rparr>, w1))
               else (Inr \<lparr>job_id = jid,
                          status = get_default d ''status'' (JStr ''pending''),
                          result = None,
                          error = get d ''error''\<rparr>, w1)
           | Some _ \<Rightarrow> (Inl PyAttributeError, w1)))"

text \<open>
  \<^verbatim>\<open>AlterLab.wait_for_job\<close>. The successive values of \<^verbatim>\<open>time.time()\<close> are the
  list \<open>clock\<close>: the first is \<open>start_time\<close>, and every turn of the \<^verbatim>\<open>while True\<close>
  loop reads the next one. \<open>poll_loop\<close> is the loop; when the scripted clock has no
  reading left the model stops with \<open>ScriptExhausted\<close>. An object of the dataclass
  \<^verbatim>\<open>ScrapeResult\<close> is true, so \<^verbatim>\<open>if status.result\<close> tests for \<^verbatim>\<open>None\<close>.
\<close>

fun poll_loop ::
  "client \<Rightarrow> builtins \<Rightarrow> json \<Rightarrow> real \<Rightarrow> real \<Rightarrow> real \<Rightarrow> real list \<Rightarrow> world
     \<Rightarrow> (error + ScrapeResult) \<times> world" where
  "poll_loop c py jid poll_interval poll_timeout start_time [] w = (Inl ScriptExhausted, w)"
| "poll_loop c py jid poll_interval poll_timeout start_time (now # clock) w =
     (let elapsed = now - start_time in
      if elapsed > poll_timeout then (Inl (TimeoutError jid poll_timeout), w)
      else
        (case get_job_status c py jid w of
           (Inl e, w1) \<Rightarrow> (Inl e, w1)
         | (Inr st, w1) \<Rightarrow>
             if status st = JStr ''succeeded'' then
               (case result st of
                  Some res \<Rightarrow> (Inr res, w1)
                | None \<Rightarrow>
                    (Inl (ScrapeError 200 (JStr ''Job completed but no result returned'') None),
                     w1))
             else if status st = JStr ''failed'' then
               (Inl (ScrapeError 422
                       (if truthy (error st) then error st else JStr ''Job failed'')
                       (Some ''JOB_FAILED'')), w1)
             else poll_loop c py jid poll_interval poll_timeout start_time clock
                    (time_sleep poll_interval w1)))"

definition wait_for_job ::
  "client \<Rightarrow> builtins \<Rightarrow> json \<Rightarrow> real \<Rightarrow> real \<Rightarrow> real list \<Rightarrow> world
     \<Rightarrow> (error + ScrapeResult) \<times> world" where
  "wait_for_job c py jid poll_interval poll_timeout clock w =
     (case clock of
        [] \<Rightarrow> (Inl ScriptExhausted, w)
      | start_time # rest \<Rightarrow> poll_loop c py jid poll_interval poll_timeout start_time rest w)"

section \<open>Facade\<close>

text \<open>
  \<^verbatim>\<open>"job_id" in data\<close> and \<^verbatim>\<open>data["job_id"]\<close> on a decoded JSON document: a
  dictionary is searched by key, a list by element, a string for a substring; the other
  values are not containers, and only a dictionary is indexed by a string.
\<close>

fun is_substring :: "string \<Rightarrow> string \<Rightarrow> bool" where
  "is_substring k [] = (k = [])"
| "is_substring k (x # xs) = (take (length k) (x # xs) = k \<or> is_substring k xs)"

fun py_contains :: "string \<Rightarrow> json \<Rightarrow> error + bool" where
  "py_contains k (JObj d) = Inr (map_of d k \<noteq> None)"
| "py_contains k (JList xs) = Inr (JStr k \<in> set xs)"
| "py_contains k (JStr s) = Inr (is_substring k s)"
| "py_contains k v = Inl PyTypeError"

fun py_getitem :: "json \<Rightarrow> string \<Rightarrow> error + json" where
  "py_getitem (JObj d) k = (case map_of d k of None \<Rightarrow> Inl PyKeyError | Some v \<Rightarrow> Inr v)"
| "py_getitem v k = Inl PyTypeError"

text \<open>
  \<^verbatim>\<open>AlterLab.scrape\<close>, with the clock that \<^verbatim>\<open>wait_for_job\<close> reads when the call
  reaches it.
\<close>

definition scrape ::
  "client \<Rightarrow> builtins \<Rightarrow> scrape_args \<Rightarrow> real \<Rightarrow> real \<Rightarrow> real list \<Rightarrow> world
     \<Rightarrow> (error + ScrapeResult) \<times> world" where
  "scrape c py a poll_interval poll_timeout clock w =
     (case request_with_retry c py
             \<lparr>req_method = ''POST'', req_path = ''/api/v1/scrape'',
              req_json = Some (JObj (build_scrape_payload c a))\<rparr> w of
        (Inl e, w1) \<Rightarrow> (Inl e, w1)
      | (Inr r, w1) \<Rightarrow>
          (case resp_json r of
             None \<Rightarrow> (Inl JSONDecodeError, w1)
           | Some data \<Rightarrow>
               (case (if resp_status_code r = 202 then py_contains ''job_id'' data
                      else Inr False) of
                  Inl e \<Rightarrow> (Inl e, w1)
                | Inr has_job \<Rightarrow>
                    if has_job then
                      (case py_getitem data ''job_id'' of
                         Inl e \<Rightarrow> (Inl e, w1)
                       | Inr jid \<Rightarrow>
                           if \<not> arg_sync a then
                             (Inr ((ScrapeResult_init (JStr (arg_url a)) (JInt 202)
                                      (JObj [(''job_id'', jid)]))
                                     \<lparr>metadata := JObj [(''job_id'', jid)]\<rparr>), w1)
                           else wait_for_job c py jid poll_interval poll_timeout clock w1)
                    else (case parse_scrape_response data of
                            Inl e \<Rightarrow> (Inl e, w1)
                          | Inr res \<Rightarrow> (Inr res, w1)))))"

section \<open>The asynchronous surface\<close>

text \<open>
  \<^verbatim>\<open>_async_request_with_retry\<close>, \<^verbatim>\<open>get_job_status_async\<close> and
  \<^verbatim>\<open>wait_for_job_async\<close> are written out a second time in the source, with
  \<^verbatim>\<open>await\<close> before each request and \<^verbatim>\<open>asyncio.sleep\<close> for each sleep. Within one
  call, the awaited steps happen in the order written.
\<close>

fun async_retry_loop ::
  "client \<Rightarrow> builtins \<Rightarrow> request \<Rightarrow> nat list \<Rightarrow> error option \<Rightarrow> world
     \<Rightarrow> (error + response) \<times> world" where
  "async_retry_loop c py rq [] last_error w =
     (Inl (case last_error of
             Some e \<Rightarrow> e
           | None \<Rightarrow> AlterLabError ''Request failed after retries''), w)"
| "async_retry_loop c py rq (attempt # rest) last_error w =
     (case client_request rq w of
        (None, w1) \<Rightarrow> (Inl ScriptExhausted, w1)
      | (Some (Response r), w1) \<Rightarrow>
          if resp_status_code r \<ge> 400 then
            (case (if 400 \<le> resp_status_code r \<and> resp_status_code r < 500
                      \<and> resp_status_code r \<noteq> 429
                   then handle_error_response py r else Inr ()) of
               Inl e \<Rightarrow> (Inl e, w1)
             | Inr _ \<Rightarrow>
                 (let last_error' = Some (AlterLabAPIError (resp_status_code r)
                                     (JStr (resp_text r)) (Some r))
                  in case map_of (resp_headers r) ''Retry-After'' of
                       None \<Rightarrow>
                         async_retry_loop c py rq rest last_error'
                           (time_sleep (retry_delay c * 2 ^ attempt) w1)
                     | Some ra \<Rightarrow>
                         if ra = [] then
                           async_retry_loop c py rq rest last_error'
                             (time_sleep (retry_delay c * 2 ^ attempt) w1)
                         else (case py_float py ra of
                                 None \<Rightarrow> (Inl PyValueError, w1)
                               | Some d \<Rightarrow>
                                   async_retry_loop c py rq rest last_error'
                                     (time_sleep d w1))))
          else (Inr r, w1)
      | (Some (TimeoutException e), w1) \<Rightarrow>
          async_retry_loop c py rq rest (Some (AlterLabError (''Network error: '' @ e)))
            (if int attempt < max_retries c - 1
             then time_sleep (retry_delay c * 2 ^ attempt) w1 else w1)
      | (Some (NetworkError e), w1) \<Rightarrow>
          async_retry_loop c py rq rest (Some (AlterLabError (''Network error: '' @ e)))
            (if int attempt < max_retries c - 1
             then time_sleep (retry_delay c * 2 ^ attempt) w1 else w1))"

definition async_request_with_retry ::
  "client \<Rightarrow> builtins \<Rightarrow> request \<Rightarrow> world \<Rightarrow> (error + response) \<times> world" where
  "async_request_with_retry c py rq w =
     async_retry_loop c py rq [0 ..< nat (max_retries c)] None w"

definition get_job_status_async ::
  "client \<Rightarrow> builtins \<Rightarrow> json \<Rightarrow> world \<Rightarrow> (error + JobStatus) \<times> world" where
  "get_job_status_async c py jid w =
     (case async_request_with_retry c py
             \<lparr>req_method = ''GET'', req_path = ''/api/v1/jobs/'' @ fstr py jid,
              req_json = None\<rparr> w of
        (Inl e, w1) \<Rightarrow> (Inl e, w1)
      | (Inr r, w1) \<Rightarrow>
          (case resp_json r of
             None \<Rightarrow> (Inl JSONDecodeError, w1)
           | Some (JObj d) \<Rightarrow>
               if (get d ''status'' = JStr ''succeeded'' \<or> get d ''status'' = JStr ''completed'')
                  \<and> truthy (get d ''result'')
               then (case parse_scrape_response (get d ''result'') of
                       Inl e \<Rightarrow> (Inl e, w1)
                     | Inr res \<Rightarrow>
                         (Inr \<lparr>job_id = jid,
                               status = get_default d ''status'' (JStr ''pending''),
                               result = Some res,
                               error = get d ''error''\<rparr>, w1))
               else (Inr \<lparr>job_id = jid,
                          status = get_default d ''status'' (JStr ''pending''),
                          result = None,
                          error = get d ''error''\<rparr>, w1)
           | Some _ \<Rightarrow> (Inl PyAttributeError, w1)))"

fun poll_loop_async ::
  "client \<Rightarrow> builtins \<Rightarrow> json \<Rightarrow> real \<Rightarrow> real \<Rightarrow> real \<Rightarrow> real list \<Rightarrow> world
     \<Rightarrow> (error + ScrapeResult) \<times> world" where
  "poll_loop_async c py jid poll_interval poll_timeout start_time [] w =
     (Inl ScriptExhausted, w)"
| "poll_loop_async c py jid poll_interval poll_timeout start_time (now # clock) w =
     (let elapsed = now - start_time in
      if elapsed > poll_timeout then (Inl (TimeoutError jid poll_timeout), w)
      else
        (case get_job_status_async c py jid w of
           (Inl e, w1) \<Rightarrow> (Inl e, w1)
         | (Inr st, w1) \<Rightarrow>
             if status st = JStr ''succeeded'' then
               (case result st of
                  Some res \<Rightarrow> (Inr res, w1)
                | None \<Rightarrow>
                    (Inl (ScrapeError 200 (JStr ''Job completed but no result returned'') None),
                     w1))
             else if status st = JStr ''failed'' then
               (Inl (ScrapeError 422
                       (if truthy (error st) then error st else JStr ''Job failed'')
                       (Some ''JOB_FAILED'')), w1)
             else poll_loop_async c py jid poll_interval poll_timeout start_time clock
                    (time_sleep poll_interval w1)))"

definition wait_for_job_async ::
  "client \<Rightarrow> builtins \<Rightarrow> json \<Rightarrow> real \<Rightarrow> real \<Rightarrow> real list \<Rightarrow> world
     \<Rightarrow> (error + ScrapeResult) \<times> world" where
  "wait_for_job_async c py jid poll_interval poll_timeout clock w =
     (case clock of
        [] \<Rightarrow> (Inl ScriptExhausted, w)
      | start_time # rest \<Rightarrow>
          poll_loop_async c py jid poll_interval poll_timeout start_time rest w)"

section \<open>Vocabulary of the properties\<close>

text \<open>
  The predicates below only name conditions that the theorems speak about. A response is
  retryable when its status is 429 or at least 500. \<open>policy_sleep c py attempt r d\<close>
  says that \<open>d\<close> is the delay the retry policy prescribes after the response \<open>r\<close> of
  attempt number \<open>attempt\<close>: the number that \<^verbatim>\<open>float\<close> reads in a non-empty
  \<^verbatim>\<open>Retry-After\<close> header when the response has one, and
  \<open>retry_delay * 2 ^ attempt\<close> when the header is absent or empty; a header that
  \<^verbatim>\<open>float\<close> does not read prescribes no delay. \<open>finite_delay\<close> holds of the
  durations that are not negative and lie within the range of a Python
  \<^verbatim>\<open>float\<close>. \<open>network_failure\<close> gives the text of a transport exception.
  \<open>typed_error\<close> is the exception class that the status of a client error selects.
  \<open>sent_after t es\<close> lists, for every request of the trace \<open>es\<close>, the time slept
  before it was sent, counted from \<open>t\<close>: the call has been running for at least that
  long when the request goes out.
\<close>

definition retryable :: "response \<Rightarrow> bool" where
  "retryable r \<longleftrightarrow> resp_status_code r = 429 \<or> 500 \<le> resp_status_code r"

definition policy_sleep :: "client \<Rightarrow> builtins \<Rightarrow> nat \<Rightarrow> response \<Rightarrow> real \<Rightarrow> bool" where
  "policy_sleep c py attempt r d \<longleftrightarrow>
     (case map_of (resp_headers r) ''Retry-After'' of
        None \<Rightarrow> d = retry_delay c * 2 ^ attempt
      | Some ra \<Rightarrow> if ra = [] then d = retry_delay c * 2 ^ attempt
                   else py_float py ra = Some d)"

definition finite_delay :: "real \<Rightarrow> bool" where
  "finite_delay d \<longleftrightarrow> 0 \<le> d \<and> d < 2 ^ 1024"

fun sent_after :: "real \<Rightarrow> event list \<Rightarrow> real list" where
  "sent_after t [] = []"
| "sent_after t (Slept d # es) = sent_after (t + d) es"
| "sent_after t (Sent rq # es) = t # sent_after t es"


definition typed_error :: "response \<Rightarrow> error" where
  "typed_error r =
     (if resp_status_code r = 401 then AuthenticationError 401 (error_detail r) (Some r)
      else if resp_status_code r = 402 then InsufficientCreditsError 402 (error_detail r) (Some r)
      else if resp_status_code r = 422 then ValidationError 422 (error_detail r) (Some r)
      else AlterLabAPIError (resp_status_code r) (error_detail r) (Some r))"

text \<open>Concrete clients, responses and worlds on which the theorems are exercised.\<close>

definition ex_client :: "int \<Rightarrow> client" where
  "ex_client n = \<lparr>timeout = 120, max_retries = n, retry_delay = 1\<rparr>"

definition ex_builtins :: builtins where
  "ex_builtins = \<lparr>py_float = (\<lambda>s. if s = ''7'' then Some 7 else None),
                  py_int = (\<lambda>s. if s = ''7'' then Some 7 else None),
                  py_str = (\<lambda>v. ''?'')\<rparr>"

definition ex_response :: "int \<Rightarrow> (string \<times> string) list \<Rightarrow> json option \<Rightarrow> response" where
  "ex_response s hs b =
     \<lparr>resp_status_code = s, resp_headers = hs, resp_text = ''body'', resp_json = b\<rparr>"

definition ex_request :: request where
  "ex_request = \<lparr>req_method = ''GET'', req_path = ''/api/v1/usage'', req_json = None\<rparr>"

definition ex_world :: "outcome list \<Rightarrow> world" where
  "ex_world outs = \<lparr>responses = outs, trace = []\<rparr>"

text \<open>The two requests that \<^verbatim>\<open>get_job_status\<close> and \<^verbatim>\<open>scrape\<close> send.\<close>

definition status_request :: "builtins \<Rightarrow> json \<Rightarrow> request" where
  "status_request py jid =
     \<lparr>req_method = ''GET'', req_path = ''/api/v1/jobs/'' @ fstr py jid, req_json = None\<rparr>"

definition scrape_request :: "client \<Rightarrow> scrape_args \<Rightarrow> request" where
  "scrape_request c a =
     \<lparr>req_method = ''POST'', req_path = ''/api/v1/scrape'',
      req_json = Some (JObj (build_scrape_payload c a))\<rparr>"

definition ex_job_response :: "dict \<Rightarrow> response" where
  "ex_job_response d = ex_response 200 [] (Some (JObj d))"

text \<open>
  The arguments of \<^verbatim>\<open>scrape("https://example.com")\<close>, every keyword at its default,
  and \<^verbatim>\<open>AdvancedOptions()\<close>.
\<close>

definition ex_args :: scrape_args where
  "ex_args =
     \<lparr>arg_url = ''https://example.com'', arg_mode = ''auto'', arg_sync = True,
      arg_advanced = None, arg_cost_controls = None, arg_cache = False,
      arg_cache_ttl = None, arg_force_refresh = False, arg_include_raw_html = False,
      arg_timeout = None, arg_formats = None, arg_extraction_schema = None,
      arg_extraction_prompt = None, arg_extraction_profile = None, arg_evidence = False,
      arg_promote_schema_org = True, arg_wait_for = None, arg_screenshot = False,
      arg_wait_until = ''networkidle'', arg_enable_scroll = None,
      arg_pdf_format = ''markdown'', arg_ocr_language = ''eng''\<rparr>"

definition ex_advanced :: AdvancedOptions where
  "ex_advanced =
     \<lparr>render_js = False, screenshot = False, markdown = False, generate_pdf = False,
      ocr = False, use_proxy = False, use_own_proxy = False, use_system_proxy = False,
      proxy_integration_id = None, proxy_country = None, wait_condition = ''networkidle'',
      remove_cookie_banners = True\<rparr>"

text \<open>A dictionary none of whose keys has the value null.\<close>

definition no_null :: "dict \<Rightarrow> bool" where
  "no_null p \<longleftrightarrow> JNull \<notin> snd ` set p"

section \<open>Properties of the transport\<close>

lemma sleeps_append: "sleeps (xs @ ys) = sleeps xs @ sleeps ys"
  by (induction xs rule: sleeps.induct) simp_all

lemma requests_append: "requests (xs @ ys) = requests xs @ requests ys"
  by (induction xs rule: requests.induct) simp_all


lemma filter_less_upt: "filter (\<lambda>i. i < m) [0 ..< k] = [0 ..< min m k]"
proof (induction k)
  case 0
  then show ?case by simp
next
  case (Suc k)
  show ?case
  proof (cases "k < m")
    case True
    then have "min m (Suc k) = Suc k" "min m k = k" by simp_all
    with Suc True show ?thesis by simp
  next
    case False
    then have "min m (Suc k) = m" "min m k = m" by simp_all
    with Suc False show ?thesis by simp
  qed
qed

lemma handle_error_client:
  assumes "400 \<le> resp_status_code r" "resp_status_code r < 500" "resp_status_code r \<noteq> 429"
  shows "handle_error_response py r = Inl (typed_error r)"
  using assms by (simp add: handle_error_response_def typed_error_def Let_def)

lemma retry_loop_client_error:
  assumes "400 \<le> resp_status_code r" "resp_status_code r < 500" "resp_status_code r \<noteq> 429"
    and "responses w = Response r # rs"
  shows "retry_loop c py rq (attempt # rest) le w =
     (Inl (typed_error r), w\<lparr>responses := rs, trace := trace w @ [Sent rq]\<rparr>)"
  using assms handle_error_client[OF assms(1-3), of py]
  by (simp add: client_request_def)

lemma retry_loop_retryable:
  assumes "retryable r" "policy_sleep c py attempt r d" "responses w = Response r # rs"
  shows "retry_loop c py rq (attempt # rest) le w =
     retry_loop c py rq rest
       (Some (AlterLabAPIError (resp_status_code r) (JStr (resp_text r)) (Some r)))
       (w\<lparr>responses := rs, trace := trace w @ [Sent rq, Slept d]\<rparr>)"
  using assms unfolding retryable_def policy_sleep_def
  by (auto simp add: client_request_def time_sleep_def split: option.splits if_splits)

lemma retry_loop_success:
  assumes "resp_status_code r < 400" and "responses w = Response r # rs"
  shows "retry_loop c py rq (attempt # rest) le w =
     (Inr r, w\<lparr>responses := rs, trace := trace w @ [Sent rq]\<rparr>)"
  using assms by (simp add: client_request_def)





lemma sleeps_network_trace:
  "sleeps (concat (map (\<lambda>i. Sent rq # (if P i then [Slept (f i)] else [])) xs))
     = map f (filter P xs)"
  by (induction xs) simp_all

lemma filter_below: "filter (\<lambda>i. int i < n - 1) [0 ..< nat n] = [0 ..< nat n - 1]"
proof -
  have "filter (\<lambda>i. int i < n - 1) [0 ..< nat n] = filter (\<lambda>i. i < nat n - 1) [0 ..< nat n]"
    by (rule filter_cong) auto
  also have "\<dots> = [0 ..< nat n - 1]"
    by (simp add: filter_less_upt)
  finally show ?thesis .
qed

lemma handle_error_not_rate_limit:
  "resp_status_code r \<noteq> 429 \<Longrightarrow> handle_error_response py r \<noteq> Inl (RateLimitError m ra x)"
  by (simp add: handle_error_response_def Let_def)

lemma retry_loop_never_rate_limit:
  assumes "\<And>m ra x. le \<noteq> Some (RateLimitError m ra x)"
  shows "fst (retry_loop c py rq atts le w) \<noteq> Inl (RateLimitError m ra x)"
  using assms
proof (induction atts arbitrary: le w)
  case Nil
  then show ?case by (cases le) auto
next
  case (Cons attempt rest)
  show ?case
  proof (cases "responses w")
    case Nil
    then show ?thesis by (simp add: client_request_def)
  next
    case (Cons out outs)
    show ?thesis
    proof (cases out)
      case (Response r)
      have ih: "\<And>w'. fst (retry_loop c py rq rest
          (Some (AlterLabAPIError (resp_status_code r) (JStr (resp_text r)) (Some r))) w')
            \<noteq> Inl (RateLimitError m ra x)"
        by (rule Cons.IH) simp
      show ?thesis
        using Cons Response ih handle_error_not_rate_limit[of r py m ra x]
        by (auto simp add: client_request_def Let_def split: sum.splits option.splits)
    next
      case (TimeoutException e)
      have ih: "\<And>w'. fst (retry_loop c py rq rest
          (Some (AlterLabError (''Network error: '' @ e))) w') \<noteq> Inl (RateLimitError m ra x)"
        by (rule Cons.IH) simp
      show ?thesis
        using Cons TimeoutException ih by (simp add: client_request_def)
    next
      case (NetworkError e)
      have ih: "\<And>w'. fst (retry_loop c py rq rest
          (Some (AlterLabError (''Network error: '' @ e))) w') \<noteq> Inl (RateLimitError m ra x)"
        by (rule Cons.IH) simp
      show ?thesis
        using Cons NetworkError ih by (simp add: client_request_def)
    qed
  qed
qed


text \<open>
  Claim C1, as amended. With \<open>max_retries = 3\<close> and the scripted responses 503, 503,
  200, the synchronous transport sends three requests and sleeps exactly twice, after
  the first and after the second response, and the call returns the 200 response. The
  first sleep lasts \<open>retry_delay * 1\<close> and the second \<open>retry_delay * 2\<close> when the
  respective response has no \<^verbatim>\<open>Retry-After\<close> header or an empty one, and lasts the
  number that \<^verbatim>\<open>float\<close> reads in the header when the header is not empty and is such
  a number. The durations are not negative and within the range of a float. A header
  that is not a number is not covered.
\<close>

theorem retry_503_503_200:
  assumes "max_retries c = 3"
    and "responses w = Response r1 # Response r2 # Response r3 # rs"
    and "resp_status_code r1 = 503" "resp_status_code r2 = 503" "resp_status_code r3 = 200"
    and "(map_of (resp_headers r1) ''Retry-After'' \<in> {None, Some []}
            \<and> d1 = retry_delay c * 1)
         \<or> (\<exists>ra. map_of (resp_headers r1) ''Retry-After'' = Some ra \<and> ra \<noteq> []
                \<and> py_float py ra = Some d1)"
    and "(map_of (resp_headers r2) ''Retry-After'' \<in> {None, Some []}
            \<and> d2 = retry_delay c * 2)
         \<or> (\<exists>ra. map_of (resp_headers r2) ''Retry-After'' = Some ra \<and> ra \<noteq> []
                \<and> py_float py ra = Some d2)"
    and "finite_delay d1" "finite_delay d2"
  shows "request_with_retry c py rq w =
           (Inr r3, w\<lparr>responses := rs,
                       trace := trace w @ [Sent rq, Slept d1, Sent rq, Slept d2, Sent rq]\<rparr>)
         \<and> sleeps (trace (snd (request_with_retry c py rq w))) = sleeps (trace w) @ [d1, d2]"
proof -
  have att: "[0 ..< nat (max_retries c)] = [0, 1, 2]"
    using assms(1) by (simp add: upt_rec)
  have s1: "retryable r1" and s2: "retryable r2"
    using assms(3,4) by (simp_all add: retryable_def)
  have p1: "policy_sleep c py 0 r1 d1"
    using assms(6) by (auto simp add: policy_sleep_def)
  have p2: "policy_sleep c py 1 r2 d2"
    using assms(7) by (auto simp add: policy_sleep_def)
  have "request_with_retry c py rq w =
           (Inr r3, w\<lparr>responses := rs,
                       trace := trace w @ [Sent rq, Slept d1, Sent rq, Slept d2, Sent rq]\<rparr>)"
    unfolding request_with_retry_def att
    apply (subst retry_loop_retryable[OF s1 p1 assms(2)])
    apply (subst retry_loop_retryable[OF s2 p2])
     apply simp
    apply (subst retry_loop_success[where r = r3 and rs = rs])
    using assms(5) by simp_all
  then show ?thesis by (simp add: sleeps_append)
qed

theorem retry_503_503_200_witness:
  "request_with_retry (ex_client 3) ex_builtins ex_request
     (ex_world [Response (ex_response 503 [(''Retry-After'', [])] None),
                Response (ex_response 503 [(''Retry-After'', ''7'')] None),
                Response (ex_response 200 [] None)])
   = (Inr (ex_response 200 [] None),
      \<lparr>responses = [],
       trace = [Sent ex_request, Slept 1, Sent ex_request, Slept 7, Sent ex_request]\<rparr>)"
  using retry_503_503_200[of "ex_client 3"
      "ex_world [Response (ex_response 503 [(''Retry-After'', [])] None),
                Response (ex_response 503 [(''Retry-After'', ''7'')] None),
                Response (ex_response 200 [] None)]"
      "ex_response 503 [(''Retry-After'', [])] None"
      "ex_response 503 [(''Retry-After'', ''7'')] None"
      "ex_response 200 [] None" "[]" 1 ex_builtins 7 ex_request]
  by (simp add: ex_client_def ex_world_def ex_response_def ex_builtins_def finite_delay_def)

text \<open>
  The claim as first stated fails on a header that is present but is not a number. The
  first 503 below carries an HTTP date in \<^verbatim>\<open>Retry-After\<close>: \<^verbatim>\<open>float\<close> raises, the
  transport does not catch the \<^verbatim>\<open>ValueError\<close>, and the call ends after one request,
  with no sleep and without the 200 response.
\<close>

theorem retry_after_http_date_counterexample:
  "request_with_retry (ex_client 3) ex_builtins ex_request
     (ex_world [Response (ex_response 503
                            [(''Retry-After'', ''Wed, 21 Oct 2015 07:28:00 GMT'')] None),
                Response (ex_response 503 [] None),
                Response (ex_response 200 [] None)])
   = (Inl PyValueError,
      \<lparr>responses = [Response (ex_response 503 [] None), Response (ex_response 200 [] None)],
       trace = [Sent ex_request]\<rparr>)"
  by (simp add: request_with_retry_def upt_rec client_request_def
      ex_client_def ex_world_def ex_response_def ex_builtins_def numeral_3_eq_3)

text \<open>
  Claim C8. Whatever \<open>max_retries\<close> is, once the transport has sent a request (which it
  does as soon as \<open>max_retries\<close> is positive) and the response has a status in
  \<open>[400, 500)\<close> other than 429, the call stops there with the typed error of that
  status, an authentication error for 401: the trace gains that one request and nothing
  else, so there is no sleep and no further attempt, and the rest of the script is left
  unread.
\<close>

theorem client_error_stops:
  assumes "0 < max_retries c"
    and "400 \<le> resp_status_code r" "resp_status_code r < 500" "resp_status_code r \<noteq> 429"
    and "responses w = Response r # rs"
  shows "request_with_retry c py rq w =
           (Inl (typed_error r), w\<lparr>responses := rs, trace := trace w @ [Sent rq]\<rparr>)
         \<and> (resp_status_code r = 401 \<longrightarrow>
               typed_error r = AuthenticationError 401 (error_detail r) (Some r))
         \<and> sleeps (trace (snd (request_with_retry c py rq w))) = sleeps (trace w)
         \<and> requests (trace (snd (request_with_retry c py rq w))) = requests (trace w) @ [rq]"
proof -
  from assms(1) have "[0 ..< nat (max_retries c)] = 0 # [Suc 0 ..< nat (max_retries c)]"
    by (simp add: upt_conv_Cons)
  then have "request_with_retry c py rq w =
           (Inl (typed_error r), w\<lparr>responses := rs, trace := trace w @ [Sent rq]\<rparr>)"
    unfolding request_with_retry_def
    using retry_loop_client_error[OF assms(2-5)] by simp
  then show ?thesis
    by (simp add: sleeps_append requests_append typed_error_def)
qed

theorem client_error_stops_witness:
  "request_with_retry (ex_client 5) ex_builtins ex_request
     (ex_world [Response (ex_response 401 [] None), Response (ex_response 200 [] None)])
   = (Inl (AuthenticationError 401 (JStr ''body'') (Some (ex_response 401 [] None))),
      \<lparr>responses = [Response (ex_response 200 [] None)], trace = [Sent ex_request]\<rparr>)"
  using client_error_stops[of "ex_client 5" "ex_response 401 [] None"
      "ex_world [Response (ex_response 401 [] None), Response (ex_response 200 [] None)]"
      "[Response (ex_response 200 [] None)]" ex_builtins ex_request]
  by (simp add: ex_client_def ex_world_def ex_response_def typed_error_def error_detail_def)


lemma no_attempts:
  "max_retries c \<le> 0 \<Longrightarrow>
     request_with_retry c py rq w = (Inl (AlterLabError ''Request failed after retries''), w)"
  by (simp add: request_with_retry_def)

lemma transport_never_rate_limit:
  "fst (request_with_retry c py rq w) \<noteq> Inl (RateLimitError m ra x)"
  unfolding request_with_retry_def by (rule retry_loop_never_rate_limit) simp




text \<open>
  Claim C2, evaluated on the code. A client with \<open>max_retries = 3\<close> receives status 429
  with \<^verbatim>\<open>Retry-After: 7\<close> and the body \<^verbatim>\<open>{"detail": "slow down"}\<close> on each of its
  three attempts. The transport sleeps three times and raises the generic
  \<open>AlterLabAPIError\<close> built in the retry loop, with the body text as message and no
  retry-after value. The rate-limit error that \<^verbatim>\<open>_handle_error_response\<close> builds for
  this very response is never raised, since the loop does not call that function for a
  429 (\<open>transport_never_rate_limit\<close> above).
\<close>

theorem rate_limit_exhaustion_raises_generic:
  "request_with_retry (ex_client 3) ex_builtins ex_request
     (ex_world (replicate 3 (Response (ex_response 429 [(''Retry-After'', ''7'')]
                               (Some (JObj [(''detail'', JStr ''slow down'')]))))))
   = (Inl (AlterLabAPIError 429 (JStr ''body'')
             (Some (ex_response 429 [(''Retry-After'', ''7'')]
                      (Some (JObj [(''detail'', JStr ''slow down'')]))))),
      \<lparr>responses = [],
       trace = [Sent ex_request, Slept 7, Sent ex_request, Slept 7,
                Sent ex_request, Slept 7]\<rparr>)
   \<and> handle_error_response ex_builtins
        (ex_response 429 [(''Retry-After'', ''7'')]
           (Some (JObj [(''detail'', JStr ''slow down'')])))
     = Inl (RateLimitError (JStr ''slow down'') (Some 7)
             (Some (ex_response 429 [(''Retry-After'', ''7'')]
                      (Some (JObj [(''detail'', JStr ''slow down'')])))))"
  by (simp add: request_with_retry_def upt_rec client_request_def time_sleep_def
      ex_client_def ex_world_def ex_response_def ex_builtins_def numeral_3_eq_3
      handle_error_response_def error_detail_def get_default_def Let_def)

lemma retry_loop_trace:
  "\<exists>es. trace (snd (retry_loop c py rq atts le w)) = trace w @ es
        \<and> set (requests es) \<subseteq> {rq}"
proof (induction atts arbitrary: le w)
  case Nil
  then show ?case by simp
next
  case (Cons attempt rest)
  have step: "\<exists>es. trace (snd (retry_loop c py rq rest le' w')) = trace w @ es
          \<and> set (requests es) \<subseteq> {rq}"
    if a: "trace w' = trace w @ es'" "set (requests es') \<subseteq> {rq}"
    for le' es' and w' :: world
  proof -
    from Cons.IH[of le' w'] obtain es where
      "trace (snd (retry_loop c py rq rest le' w')) = trace w' @ es" "set (requests es) \<subseteq> {rq}"
      by blast
    with a have "trace (snd (retry_loop c py rq rest le' w')) = trace w @ (es' @ es)"
      "set (requests (es' @ es)) \<subseteq> {rq}"
      by (simp_all add: requests_append)
    then show ?thesis by blast
  qed
  show ?case
  proof (cases "responses w")
    case Nil
    then show ?thesis by (simp add: client_request_def)
  next
    case (Cons out outs)
    show ?thesis
    proof (cases out)
      case (Response r)
      show ?thesis
        using Cons Response
          step[of _ "[Sent rq, Slept d]" for d]
        by (auto simp add: client_request_def time_sleep_def Let_def
            split: sum.splits option.splits)
    next
      case (TimeoutException e)
      show ?thesis
        using Cons TimeoutException step[of _ "[Sent rq, Slept d]" for d] step[of _ "[Sent rq]"]
        by (auto simp add: client_request_def time_sleep_def)
    next
      case (NetworkError e)
      show ?thesis
        using Cons NetworkError step[of _ "[Sent rq, Slept d]" for d] step[of _ "[Sent rq]"]
        by (auto simp add: client_request_def time_sleep_def)
    qed
  qed
qed

lemma request_with_retry_trace:
  "request_with_retry c py rq w = (res, w1) \<Longrightarrow>
     \<exists>es. trace w1 = trace w @ es \<and> set (requests es) \<subseteq> {rq}"
  using retry_loop_trace[of c py rq "[0 ..< nat (max_retries c)]" None w]
  by (simp add: request_with_retry_def)


section \<open>Properties of the job poller\<close>

lemma async_retry_loop_eq:
  "async_retry_loop c py rq atts le w = retry_loop c py rq atts le w"
proof (induction atts arbitrary: le w)
  case Nil
  then show ?case by simp
next
  case (Cons attempt rest)
  show ?case
    by (simp add: Cons.IH Let_def
        split: prod.splits option.splits outcome.splits sum.splits)
qed

lemma get_job_status_async_eq: "get_job_status_async c py jid w = get_job_status c py jid w"
  by (simp add: get_job_status_async_def get_job_status_def async_request_with_retry_def
      request_with_retry_def async_retry_loop_eq)

lemma poll_loop_async_eq:
  "poll_loop_async c py jid poll_interval poll_timeout start_time clock w
     = poll_loop c py jid poll_interval poll_timeout start_time clock w"
proof (induction clock arbitrary: w)
  case Nil
  then show ?case by simp
next
  case (Cons now clock)
  show ?case
    by (simp add: Cons.IH get_job_status_async_eq
        split: prod.splits sum.splits option.splits)
qed

lemma wait_for_job_async_eq:
  "wait_for_job_async c py jid poll_interval poll_timeout clock w
     = wait_for_job c py jid poll_interval poll_timeout clock w"
  by (simp add: wait_for_job_async_def wait_for_job_def poll_loop_async_eq split: list.splits)

lemma poll_loop_deadline:
  assumes "poll_timeout < now - start_time"
  shows "poll_loop c py jid poll_interval poll_timeout start_time (pre @ now # post) w
           = poll_loop c py jid poll_interval poll_timeout start_time pre w
         \<or> (\<exists>w'. poll_loop c py jid poll_interval poll_timeout start_time pre w
                     = (Inl ScriptExhausted, w')
                \<and> poll_loop c py jid poll_interval poll_timeout start_time
                     (pre @ now # post) w
                     = (Inl (TimeoutError jid poll_timeout), w'))"
proof (induction pre arbitrary: w)
  case Nil
  show ?case using assms by simp
next
  case (Cons t pre)
  show ?case
  proof (cases "poll_timeout < t - start_time")
    case True
    then show ?thesis by simp
  next
    case False
    obtain res w1 where g: "get_job_status c py jid w = (res, w1)"
      by (cases "get_job_status c py jid w")
    show ?thesis
    proof (cases res)
      case (Inl e)
      with g False show ?thesis by simp
    next
      case (Inr st)
      show ?thesis
        using g Inr False Cons.IH[of "time_sleep poll_interval w1"]
        by (cases "result st") auto
    qed
  qed
qed

text \<open>
  Claim C6, as amended. In both pollers every turn of the polling loop reads the clock
  and compares the elapsed time with \<open>poll_timeout\<close> before it asks for the job
  status. When the reading \<open>now\<close> of a turn exceeds the timeout, that turn sends no
  request and does not sleep, and the call raises a timeout error that carries the job
  id and the configured timeout: if the reading is the first of the call, the world is
  returned as it was; if it comes after the turns that read \<open>pre\<close>, the call either had
  ended within those turns, with their outcome, or it ends with the timeout error in the
  very world those turns left. The clock is read nowhere else: what the transport does
  within one turn, its retries of the status request and the sleeps between them, is
  not compared with the deadline.
\<close>

theorem timeout_checked_before_poll:
  assumes "poll_timeout < now - start_time"
  shows "wait_for_job c py jid poll_interval poll_timeout (start_time # now # clock) w
           = (Inl (TimeoutError jid poll_timeout), w)
       \<and> wait_for_job_async c py jid poll_interval poll_timeout (start_time # now # clock) w
           = (Inl (TimeoutError jid poll_timeout), w)
       \<and> (wait_for_job c py jid poll_interval poll_timeout
              (start_time # pre @ now # clock) w
             = wait_for_job c py jid poll_interval poll_timeout (start_time # pre) w
           \<or> (\<exists>w'. wait_for_job c py jid poll_interval poll_timeout (start_time # pre) w
                       = (Inl ScriptExhausted, w')
                  \<and> wait_for_job c py jid poll_interval poll_timeout
                       (start_time # pre @ now # clock) w
                       = (Inl (TimeoutError jid poll_timeout), w')))
       \<and> (wait_for_job_async c py jid poll_interval poll_timeout
              (start_time # pre @ now # clock) w
             = wait_for_job_async c py jid poll_interval poll_timeout (start_time # pre) w
           \<or> (\<exists>w'. wait_for_job_async c py jid poll_interval poll_timeout
                       (start_time # pre) w
                       = (Inl ScriptExhausted, w')
                  \<and> wait_for_job_async c py jid poll_interval poll_timeout
                       (start_time # pre @ now # clock) w
                       = (Inl (TimeoutError jid poll_timeout), w')))"
  using assms poll_loop_deadline[OF assms, of c py jid poll_interval pre clock w]
  by (simp add: wait_for_job_async_eq wait_for_job_def)

theorem timeout_checked_before_poll_witness:
  "wait_for_job (ex_client 3) ex_builtins (JStr ''abc'') (1/2) 300 [1000, 1001, 1301]
     (ex_world [Response (ex_job_response [(''status'', JStr ''pending'')]),
                Response (ex_job_response [(''status'', JStr ''running'')])])
   = (Inl (TimeoutError (JStr ''abc'') 300),
      \<lparr>responses = [Response (ex_job_response [(''status'', JStr ''running'')])],
       trace = [Sent (status_request ex_builtins (JStr ''abc'')), Slept (1/2)]\<rparr>)
   \<and> wait_for_job_async (ex_client 3) ex_builtins (JStr ''abc'') (1/2) 300
       [1000, 1001, 1301]
       (ex_world [Response (ex_job_response [(''status'', JStr ''pending'')]),
                  Response (ex_job_response [(''status'', JStr ''running'')])])
   = (Inl (TimeoutError (JStr ''abc'') 300),
      \<lparr>responses = [Response (ex_job_response [(''status'', JStr ''running'')])],
       trace = [Sent (status_request ex_builtins (JStr ''abc'')), Slept (1/2)]\<rparr>)"
  using timeout_checked_before_poll[of 300 1301 1000 "ex_client 3" ex_builtins "JStr ''abc''"
      "1/2" "[]"
      "ex_world [Response (ex_job_response [(''status'', JStr ''pending'')]),
                 Response (ex_job_response [(''status'', JStr ''running'')])]"
      "[1001]"]
  by (simp add: wait_for_job_async_eq wait_for_job_def get_job_status_def
      request_with_retry_def upt_rec
      client_request_def time_sleep_def ex_client_def ex_world_def ex_response_def
      ex_job_response_def ex_builtins_def status_request_def get_def get_default_def)

text \<open>
  The claim as first stated fails where the transport retries within a turn. Below,
  \<open>poll_timeout\<close> is 5 seconds and the only two clock readings are taken before any
  sleep. The first status request is answered 503 with \<^verbatim>\<open>Retry-After: 7\<close>, twice:
  the transport sleeps 7 seconds and sends the status request again, each time, so the
  second request goes out when at least 7 seconds have passed and the third when at
  least 14 have. The call ends with the error of the failed job, not with a timeout
  error.
\<close>

theorem retry_past_deadline_counterexample:
  "wait_for_job (ex_client 3) ex_builtins (JStr ''abc'') (1/2) 5 [1000, 1000]
     (ex_world [Response (ex_response 503 [(''Retry-After'', ''7'')] None),
                Response (ex_response 503 [(''Retry-After'', ''7'')] None),
                Response (ex_job_response [(''status'', JStr ''failed'')])])
   = (Inl (ScrapeError 422 (JStr ''Job failed'') (Some ''JOB_FAILED'')),
      \<lparr>responses = [],
       trace = [Sent (status_request ex_builtins (JStr ''abc'')), Slept 7,
                Sent (status_request ex_builtins (JStr ''abc'')), Slept 7,
                Sent (status_request ex_builtins (JStr ''abc''))]\<rparr>)
   \<and> sent_after 0
        [Sent (status_request ex_builtins (JStr ''abc'')), Slept 7,
         Sent (status_request ex_builtins (JStr ''abc'')), Slept 7,
         Sent (status_request ex_builtins (JStr ''abc''))] = [0, 7, 14]"
  by (simp add: wait_for_job_def get_job_status_def request_with_retry_def upt_rec
      client_request_def time_sleep_def ex_client_def ex_world_def ex_response_def
      ex_job_response_def ex_builtins_def status_request_def get_def get_default_def
      numeral_3_eq_3)

text \<open>
  Claim C7, as amended. Whenever the poller, its deadline not yet passed, observes a job
  status \<^verbatim>\<open>succeeded\<close> with no embedded result, it raises a \<open>ScrapeError\<close> with
  status code 200 and the message \<^verbatim>\<open>Job completed but no result returned\<close>, and so
  returns no \<open>ScrapeResult\<close>. The message starts with a capital letter.
\<close>

theorem succeeded_without_result_raises:
  assumes "get_job_status c py jid w = (Inr st, w1)"
    and "status st = JStr ''succeeded''" and "result st = None"
    and "\<not> poll_timeout < now - start_time"
  shows "poll_loop c py jid poll_interval poll_timeout start_time (now # clock) w
           = (Inl (ScrapeError 200 (JStr ''Job completed but no result returned'') None), w1)"
  using assms by simp

theorem succeeded_without_result_raises_witness:
  "poll_loop (ex_client 3) ex_builtins (JStr ''abc'') (1/2) 300 1000 [1001, 1002]
     (ex_world [Response (ex_job_response [(''status'', JStr ''succeeded'')])])
   = (Inl (ScrapeError 200 (JStr ''Job completed but no result returned'') None),
      \<lparr>responses = [], trace = [Sent (status_request ex_builtins (JStr ''abc''))]\<rparr>)"
proof -
  have g: "get_job_status (ex_client 3) ex_builtins (JStr ''abc'')
      (ex_world [Response (ex_job_response [(''status'', JStr ''succeeded'')])])
    = (Inr \<lparr>job_id = JStr ''abc'', status = JStr ''succeeded'', result = None, error = JNull\<rparr>,
       \<lparr>responses = [], trace = [Sent (status_request ex_builtins (JStr ''abc''))]\<rparr>)"
    by (simp add: get_job_status_def request_with_retry_def upt_rec
      client_request_def ex_client_def ex_world_def ex_response_def
      ex_job_response_def ex_builtins_def status_request_def get_def get_default_def)
  show ?thesis
    using succeeded_without_result_raises[OF g, of 300 1001 1000 "1/2" "[1002]"] by simp
qed

text \<open>
  The message of that error is not the all-lowercase string: a job answered
  \<^verbatim>\<open>{"status": "succeeded"}\<close> raises the error below.
\<close>

theorem no_result_message_counterexample:
  "fst (wait_for_job (ex_client 3) ex_builtins (JStr ''abc'') (1/2) 300 [1000, 1001]
         (ex_world [Response (ex_job_response [(''status'', JStr ''succeeded'')])]))
     = Inl (ScrapeError 200 (JStr ''Job completed but no result returned'') None)
   \<and> fst (wait_for_job (ex_client 3) ex_builtins (JStr ''abc'') (1/2) 300 [1000, 1001]
         (ex_world [Response (ex_job_response [(''status'', JStr ''succeeded'')])]))
     \<noteq> Inl (ScrapeError 200 (JStr ''job completed but no result returned'') None)"
  by (simp add: wait_for_job_def get_job_status_def request_with_retry_def upt_rec
      client_request_def ex_client_def ex_world_def ex_response_def
      ex_job_response_def ex_builtins_def get_def get_default_def)


lemma get_job_status_object:
  assumes "request_with_retry c py (status_request py jid) w = (Inr r, w1)"
    and "resp_json r = Some (JObj d)"
  shows "get_job_status c py jid w =
     (if (get d ''status'' = JStr ''succeeded'' \<or> get d ''status'' = JStr ''completed'')
          \<and> truthy (get d ''result'')
      then (case parse_scrape_response (get d ''result'') of
              Inl e \<Rightarrow> (Inl e, w1)
            | Inr res \<Rightarrow>
                (Inr \<lparr>job_id = jid, status = get_default d ''status'' (JStr ''pending''),
                      result = Some res, error = get d ''error''\<rparr>, w1))
      else (Inr \<lparr>job_id = jid, status = get_default d ''status'' (JStr ''pending''),
                 result = None, error = get d ''error''\<rparr>, w1))"
  using assms by (simp add: get_job_status_def status_request_def)

text \<open>
  Claim C5, as amended. Let the status request be answered by a JSON object whose
  \<^verbatim>\<open>status\<close> entry is absent or is a string other than \<^verbatim>\<open>pending\<close>,
  \<^verbatim>\<open>running\<close>, \<^verbatim>\<open>succeeded\<close> and \<^verbatim>\<open>failed\<close>. Then \<open>get_job_status\<close>
  returns a job status whose \<open>status\<close> is \<^verbatim>\<open>pending\<close> when the entry is absent and
  is the string of the payload, unchanged, when it is present; and \<open>wait_for_job\<close>,
  its deadline not yet passed, treats the job as not finished: it sleeps
  \<open>poll_interval\<close> and goes on to the next turn. For the status \<^verbatim>\<open>completed\<close>
  this needs the embedded result, if there is a true one, to parse.
\<close>

theorem unknown_status_keeps_polling:
  assumes "request_with_retry c py (status_request py jid) w = (Inr r, w1)"
    and "resp_json r = Some (JObj d)"
    and "map_of d ''status'' = None
         \<or> (\<exists>s. map_of d ''status'' = Some (JStr s)
                \<and> s \<notin> {''pending'', ''running'', ''succeeded'', ''failed''})"
    and "map_of d ''status'' = Some (JStr ''completed'') \<longrightarrow>
           \<not> truthy (get d ''result'') \<or> (\<exists>res. parse_scrape_response (get d ''result'') = Inr res)"
    and "\<not> poll_timeout < now - start_time"
  shows "(\<exists>st. get_job_status c py jid w = (Inr st, w1)
             \<and> status st = (case map_of d ''status'' of
                               None \<Rightarrow> JStr ''pending'' | Some v \<Rightarrow> v))
       \<and> poll_loop c py jid poll_interval poll_timeout start_time (now # clock) w
           = poll_loop c py jid poll_interval poll_timeout start_time clock
               (time_sleep poll_interval w1)"
proof -
  let ?v = "case map_of d ''status'' of None \<Rightarrow> JStr ''pending'' | Some v \<Rightarrow> v"
  have v: "get_default d ''status'' (JStr ''pending'') = ?v"
    by (simp add: get_default_def)
  have ns: "?v \<noteq> JStr ''succeeded''" and nf: "?v \<noteq> JStr ''failed''"
    using assms(3) by auto
  have gs: "get d ''status'' \<noteq> JStr ''succeeded''"
    using assms(3) by (auto simp: get_def get_default_def)
  obtain st where st: "get_job_status c py jid w = (Inr st, w1)" "status st = ?v"
  proof (cases "get d ''status'' = JStr ''completed'' \<and> truthy (get d ''result'')")
    case True
    then have "map_of d ''status'' = Some (JStr ''completed'')"
      by (auto simp: get_def get_default_def split: option.splits)
    with assms(4) True obtain res where "parse_scrape_response (get d ''result'') = Inr res"
      by blast
    with True that show ?thesis
      using get_job_status_object[OF assms(1,2)] v by simp
  next
    case False
    with gs that show ?thesis
      using get_job_status_object[OF assms(1,2)] v by auto
  qed
  have "poll_loop c py jid poll_interval poll_timeout start_time (now # clock) w
           = poll_loop c py jid poll_interval poll_timeout start_time clock
               (time_sleep poll_interval w1)"
    using st ns nf assms(5) by simp
  with st show ?thesis by blast
qed

theorem unknown_status_keeps_polling_witness:
  "poll_loop (ex_client 3) ex_builtins (JStr ''abc'') (1/2) 300 1000 [1001]
     (ex_world [Response (ex_job_response [(''status'', JStr ''queued'')])])
   = (Inl ScriptExhausted,
      \<lparr>responses = [],
       trace = [Sent (status_request ex_builtins (JStr ''abc'')), Slept (1/2)]\<rparr>)"
proof -
  have t: "request_with_retry (ex_client 3) ex_builtins (status_request ex_builtins (JStr ''abc''))
      (ex_world [Response (ex_job_response [(''status'', JStr ''queued'')])])
    = (Inr (ex_job_response [(''status'', JStr ''queued'')]),
       \<lparr>responses = [], trace = [Sent (status_request ex_builtins (JStr ''abc''))]\<rparr>)"
    by (simp add: request_with_retry_def upt_rec client_request_def ex_client_def
        ex_world_def ex_response_def ex_job_response_def)
  have j: "resp_json (ex_job_response [(''status'', JStr ''queued'')])
             = Some (JObj [(''status'', JStr ''queued'')])"
    by (simp add: ex_job_response_def ex_response_def)
  show ?thesis
    using unknown_status_keeps_polling[OF t j, of 300 1001 1000 "1/2" "[]"]
    by (simp add: time_sleep_def)
qed

text \<open>
  For the payload \<^verbatim>\<open>{"status": "queued"}\<close> the status that \<open>get_job_status\<close>
  returns is \<^verbatim>\<open>queued\<close>, not \<^verbatim>\<open>pending\<close>.
\<close>

theorem unknown_status_counterexample:
  "fst (get_job_status (ex_client 3) ex_builtins (JStr ''abc'')
         (ex_world [Response (ex_job_response [(''status'', JStr ''queued'')])]))
     = Inr \<lparr>job_id = JStr ''abc'', status = JStr ''queued'', result = None, error = JNull\<rparr>
   \<and> fst (get_job_status (ex_client 3) ex_builtins (JStr ''abc'')
         (ex_world [Response (ex_job_response [(''status'', JStr ''queued'')])]))
     \<noteq> Inr \<lparr>job_id = JStr ''abc'', status = JStr ''pending'', result = None, error = JNull\<rparr>"
  by (simp add: get_job_status_def request_with_retry_def upt_rec
      client_request_def ex_client_def ex_world_def ex_response_def
      ex_job_response_def ex_builtins_def get_def get_default_def)

section \<open>Properties of the facade\<close>

text \<open>
  Claim C4. When \<open>scrape\<close> is called with \<open>sync = False\<close> and the transport returns
  a 202 response whose JSON object has a \<^verbatim>\<open>job_id\<close>, the call returns a
  \<open>ScrapeResult\<close> that carries the job id, as the only entry of \<open>content\<close> and of
  \<open>metadata\<close>, next to the URL of the call and the status code 202; every other field
  has the default of the dataclass. The world is the one the transport left: every
  request of the call is the POST of the scrape, none asks for a job status.
\<close>

theorem nonblocking_submission_returns_job_id:
  assumes "\<not> arg_sync a"
    and "request_with_retry c py (scrape_request c a) w = (Inr r, w1)"
    and "resp_status_code r = 202"
    and "resp_json r = Some (JObj d)"
    and "map_of d ''job_id'' = Some jid"
  shows "scrape c py a poll_interval poll_timeout clock w =
           (Inr \<lparr>url = JStr (arg_url a), status_code = JInt 202,
                 content = JObj [(''job_id'', jid)], title = JNull, author = JNull,
                 published_at = JNull, metadata = JObj [(''job_id'', jid)],
                 headers = JObj [], cached = JBool False, cached_at = JNull,
                 expires_at = JNull, response_time_ms = JInt 0, size_bytes = JInt 0,
                 raw_html = JNull, screenshot_url = JNull, pdf_url = JNull,
                 ocr_results = JNull, proxy_used = JNull, filtered_content = JNull,
                 billing = None, extraction_method = JStr ''algorithmic'',
                 method_details = JNull\<rparr>, w1)
       \<and> (\<exists>es. trace (snd (scrape c py a poll_interval poll_timeout clock w)) = trace w @ es
               \<and> set (requests es) \<subseteq> {scrape_request c a})"
proof -
  have r: "scrape c py a poll_interval poll_timeout clock w =
           (Inr \<lparr>url = JStr (arg_url a), status_code = JInt 202,
                 content = JObj [(''job_id'', jid)], title = JNull, author = JNull,
                 published_at = JNull, metadata = JObj [(''job_id'', jid)],
                 headers = JObj [], cached = JBool False, cached_at = JNull,
                 expires_at = JNull, response_time_ms = JInt 0, size_bytes = JInt 0,
                 raw_html = JNull, screenshot_url = JNull, pdf_url = JNull,
                 ocr_results = JNull, proxy_used = JNull, filtered_content = JNull,
                 billing = None, extraction_method = JStr ''algorithmic'',
                 method_details = JNull\<rparr>, w1)"
    using assms by (simp add: scrape_def scrape_request_def ScrapeResult_init_def)
  from request_with_retry_trace[OF assms(2)] r show ?thesis by simp
qed

theorem nonblocking_submission_returns_job_id_witness:
  "scrape (ex_client 3) ex_builtins (ex_args\<lparr>arg_sync := False\<rparr>) (1/2) 300 []
     (ex_world [Response (ex_response 202 [] (Some (JObj [(''job_id'', JStr ''abc'')])))])
   = (Inr \<lparr>url = JStr ''https://example.com'', status_code = JInt 202,
           content = JObj [(''job_id'', JStr ''abc'')], title = JNull, author = JNull,
           published_at = JNull, metadata = JObj [(''job_id'', JStr ''abc'')],
           headers = JObj [], cached = JBool False, cached_at = JNull,
           expires_at = JNull, response_time_ms = JInt 0, size_bytes = JInt 0,
           raw_html = JNull, screenshot_url = JNull, pdf_url = JNull,
           ocr_results = JNull, proxy_used = JNull, filtered_content = JNull,
           billing = None, extraction_method = JStr ''algorithmic'',
           method_details = JNull\<rparr>,
      \<lparr>responses = [],
       trace = [Sent (scrape_request (ex_client 3) (ex_args\<lparr>arg_sync := False\<rparr>))]\<rparr>)"
proof -
  have s: "\<not> arg_sync (ex_args\<lparr>arg_sync := False\<rparr>)" by simp
  have t: "request_with_retry (ex_client 3) ex_builtins
      (scrape_request (ex_client 3) (ex_args\<lparr>arg_sync := False\<rparr>))
      (ex_world [Response (ex_response 202 [] (Some (JObj [(''job_id'', JStr ''abc'')])))])
    = (Inr (ex_response 202 [] (Some (JObj [(''job_id'', JStr ''abc'')]))),
       \<lparr>responses = [],
        trace = [Sent (scrape_request (ex_client 3) (ex_args\<lparr>arg_sync := False\<rparr>))]\<rparr>)"
    by (simp add: request_with_retry_def upt_rec client_request_def ex_client_def
        ex_world_def ex_response_def)
  have u: "arg_url (ex_args\<lparr>arg_sync := False\<rparr>) = ''https://example.com''"
    by (simp add: ex_args_def)
  show ?thesis
    using nonblocking_submission_returns_job_id[OF s t, of "[(''job_id'', JStr ''abc'')]"
        "JStr ''abc''" "1/2" 300 "[]"] u
    by (simp add: ex_response_def)
qed

section \<open>Properties of the request builder\<close>

lemma lookup_opt_step:
  "map_of ((case x of None \<Rightarrow> id | Some t \<Rightarrow> AList.update k (f t)) p) k'
     = (if k' = k then (case x of None \<Rightarrow> map_of p k | Some t \<Rightarrow> Some (f t))
        else map_of p k')"
  by (cases x) (simp_all add: update_conv')

lemma lookup_opt_if_step:
  "map_of ((case x of None \<Rightarrow> id
            | Some t \<Rightarrow> if g t then AList.update k (f t) else id) p) k'
     = (if k' = k then (case x of None \<Rightarrow> map_of p k
                        | Some t \<Rightarrow> if g t then Some (f t) else map_of p k)
        else map_of p k')"
  by (cases x) (simp_all add: update_conv')

lemma lookup_if_step:
  "map_of ((if b then AList.update k v else id) p) k'
     = (if k' = k then (if b then Some v else map_of p k) else map_of p k')"
  by (simp add: update_conv')

lemma no_null_update: "no_null p \<Longrightarrow> v \<noteq> JNull \<Longrightarrow> no_null (AList.update k v p)"
  unfolding no_null_def by (induction p) auto

lemma no_null_opt_step:
  "no_null p \<Longrightarrow> (\<And>t. f t \<noteq> JNull) \<Longrightarrow>
     no_null ((case x of None \<Rightarrow> id | Some t \<Rightarrow> AList.update k (f t)) p)"
  by (cases x) (simp_all add: no_null_update)

lemma no_null_opt_if_step:
  "no_null p \<Longrightarrow> (\<And>t. f t \<noteq> JNull) \<Longrightarrow>
     no_null ((case x of None \<Rightarrow> id
               | Some t \<Rightarrow> if g t then AList.update k (f t) else id) p)"
  by (cases x) (simp_all add: no_null_update)

lemma no_null_if_step:
  "no_null p \<Longrightarrow> v \<noteq> JNull \<Longrightarrow> no_null ((if b then AList.update k v else id) p)"
  by (simp add: no_null_update)

lemma no_null_payload: "no_null (build_scrape_payload c a)"
  unfolding build_scrape_payload_def Let_def
  by (intro no_null_opt_step no_null_opt_if_step no_null_if_step)
     (simp_all add: no_null_def)

lemma no_null_cost_controls: "no_null (CostControls_to_dict cc)"
  by (simp add: CostControls_to_dict_def no_null_update no_null_def Let_def
      split: option.split)

lemma lookup_cache_ttl:
  "map_of (build_scrape_payload c a) ''cache_ttl'' = map_option JInt (arg_cache_ttl a)"
  unfolding build_scrape_payload_def Let_def
  by (cases "arg_cache_ttl a")
     (simp_all add: lookup_opt_step lookup_opt_if_step lookup_if_step update_conv')

lemma lookup_advanced:
  "map_of (build_scrape_payload c a) ''advanced''
     = map_option (\<lambda>adv. JObj (AdvancedOptions_to_dict adv)) (arg_advanced a)"
  unfolding build_scrape_payload_def Let_def
  by (cases "arg_advanced a")
     (simp_all add: lookup_opt_step lookup_opt_if_step lookup_if_step update_conv')

lemma lookup_cost_controls:
  "map_of (build_scrape_payload c a) ''cost_controls''
     = map_option (\<lambda>cc. JObj (CostControls_to_dict cc)) (arg_cost_controls a)"
  unfolding build_scrape_payload_def Let_def
  by (cases "arg_cost_controls a")
     (simp_all add: lookup_opt_step lookup_opt_if_step lookup_if_step update_conv')

lemma lookup_formats:
  "map_of (build_scrape_payload c a) ''formats''
     = (case arg_formats a of None \<Rightarrow> None
        | Some fs \<Rightarrow> if fs \<noteq> [] then Some (JList (map JStr fs)) else None)"
  unfolding build_scrape_payload_def Let_def
  by (cases "arg_formats a")
     (simp_all add: lookup_opt_step lookup_opt_if_step lookup_if_step update_conv')

lemma lookup_extraction_schema:
  "map_of (build_scrape_payload c a) ''extraction_schema''
     = (case arg_extraction_schema a of None \<Rightarrow> None
        | Some sch \<Rightarrow> if sch \<noteq> [] then Some (JObj sch) else None)"
  unfolding build_scrape_payload_def Let_def
  by (cases "arg_extraction_schema a")
     (simp_all add: lookup_opt_step lookup_opt_if_step lookup_if_step update_conv')

lemma lookup_extraction_prompt:
  "map_of (build_scrape_payload c a) ''extraction_prompt''
     = (case arg_extraction_prompt a of None \<Rightarrow> None
        | Some s \<Rightarrow> if s \<noteq> [] then Some (JStr s) else None)"
  unfolding build_scrape_payload_def Let_def
  by (cases "arg_extraction_prompt a")
     (simp_all add: lookup_opt_step lookup_opt_if_step lookup_if_step update_conv')

lemma lookup_extraction_profile:
  "map_of (build_scrape_payload c a) ''extraction_profile''
     = (case arg_extraction_profile a of None \<Rightarrow> None
        | Some s \<Rightarrow> if s \<noteq> [] then Some (JStr s) else None)"
  unfolding build_scrape_payload_def Let_def
  by (cases "arg_extraction_profile a")
     (simp_all add: lookup_opt_step lookup_opt_if_step lookup_if_step update_conv')

lemma lookup_wait_for:
  "map_of (build_scrape_payload c a) ''wait_for''
     = (case arg_wait_for a of None \<Rightarrow> None
        | Some s \<Rightarrow> if s \<noteq> [] then Some (JStr s) else None)"
  unfolding build_scrape_payload_def Let_def
  by (cases "arg_wait_for a")
     (simp_all add: lookup_opt_step lookup_opt_if_step lookup_if_step update_conv')

lemma lookup_screenshot:
  "map_of (build_scrape_payload c a) ''screenshot''
     = (if arg_screenshot a then Some (JBool True) else None)"
  unfolding build_scrape_payload_def Let_def
  by (simp add: lookup_opt_step lookup_opt_if_step lookup_if_step update_conv')

lemma lookup_enable_scroll:
  "map_of (build_scrape_payload c a) ''enable_scroll'' = map_option JBool (arg_enable_scroll a)"
  unfolding build_scrape_payload_def Let_def
  by (cases "arg_enable_scroll a")
     (simp_all add: lookup_opt_step lookup_opt_if_step lookup_if_step update_conv')

lemma advanced_null_keys:
  "map_of (AdvancedOptions_to_dict adv) k = Some JNull \<longleftrightarrow>
     (k = ''proxy_integration_id'' \<and> proxy_integration_id adv = None)
     \<or> (k = ''proxy_country'' \<and> proxy_country adv = None)"
  by (cases "proxy_integration_id adv"; cases "proxy_country adv")
     (simp_all add: AdvancedOptions_to_dict_def)

lemma advanced_keys:
  "map fst (AdvancedOptions_to_dict adv)
     = [''render_js'', ''screenshot'', ''markdown'', ''generate_pdf'', ''ocr'',
        ''use_proxy'', ''use_own_proxy'', ''use_system_proxy'',
        ''proxy_integration_id'', ''proxy_country'', ''wait_condition'',
        ''remove_cookie_banners'']"
  by (simp add: AdvancedOptions_to_dict_def)

text \<open>
  Claim C3, as amended. For every combination of scrape options, no key of the built
  payload has the value null at the top level. Each conditionally included field is left
  out when its option is absent (\<^verbatim>\<open>None\<close>) or empty, and the screenshot flag when it
  is false; for \<^verbatim>\<open>enable_scroll\<close> the test is \<^verbatim>\<open>is not None\<close>, so the key is
  left out only when the option is absent and is sent, with its value, also when that
  value is false. An included cost-controls block has no null value. An included
  advanced-options block is the dictionary of all twelve fields, in which
  \<^verbatim>\<open>proxy_integration_id\<close> and \<^verbatim>\<open>proxy_country\<close> are null exactly when they are
  not set, and no other key is ever null.
\<close>

theorem payload_omits_absent_options:
  "no_null (build_scrape_payload c a)
   \<and> (arg_cache_ttl a = None \<longrightarrow> map_of (build_scrape_payload c a) ''cache_ttl'' = None)
   \<and> (arg_advanced a = None \<longrightarrow> map_of (build_scrape_payload c a) ''advanced'' = None)
   \<and> (arg_cost_controls a = None \<longrightarrow>
         map_of (build_scrape_payload c a) ''cost_controls'' = None)
   \<and> (arg_formats a = None \<or> arg_formats a = Some [] \<longrightarrow>
         map_of (build_scrape_payload c a) ''formats'' = None)
   \<and> (arg_extraction_schema a = None \<or> arg_extraction_schema a = Some [] \<longrightarrow>
         map_of (build_scrape_payload c a) ''extraction_schema'' = None)
   \<and> (arg_extraction_prompt a = None \<or> arg_extraction_prompt a = Some [] \<longrightarrow>
         map_of (build_scrape_payload c a) ''extraction_prompt'' = None)
   \<and> (arg_extraction_profile a = None \<or> arg_extraction_profile a = Some [] \<longrightarrow>
         map_of (build_scrape_payload c a) ''extraction_profile'' = None)
   \<and> (arg_wait_for a = None \<or> arg_wait_for a = Some [] \<longrightarrow>
         map_of (build_scrape_payload c a) ''wait_for'' = None)
   \<and> (\<not> arg_screenshot a \<longrightarrow> map_of (build_scrape_payload c a) ''screenshot'' = None)
   \<and> (arg_enable_scroll a = None \<longrightarrow>
         map_of (build_scrape_payload c a) ''enable_scroll'' = None)
   \<and> (arg_enable_scroll a = Some b \<longrightarrow>
         map_of (build_scrape_payload c a) ''enable_scroll'' = Some (JBool b))
   \<and> (arg_cost_controls a = Some cc \<longrightarrow>
         map_of (build_scrape_payload c a) ''cost_controls''
           = Some (JObj (CostControls_to_dict cc))
         \<and> no_null (CostControls_to_dict cc))
   \<and> (arg_advanced a = Some adv \<longrightarrow>
         map_of (build_scrape_payload c a) ''advanced''
           = Some (JObj (AdvancedOptions_to_dict adv))
         \<and> map fst (AdvancedOptions_to_dict adv)
             = [''render_js'', ''screenshot'', ''markdown'', ''generate_pdf'', ''ocr'',
                ''use_proxy'', ''use_own_proxy'', ''use_system_proxy'',
                ''proxy_integration_id'', ''proxy_country'', ''wait_condition'',
                ''remove_cookie_banners'']
         \<and> (map_of (AdvancedOptions_to_dict adv) k = Some JNull \<longleftrightarrow>
              (k = ''proxy_integration_id'' \<and> proxy_integration_id adv = None)
              \<or> (k = ''proxy_country'' \<and> proxy_country adv = None)))"
  using no_null_payload[of c a] no_null_cost_controls[of cc] advanced_null_keys[of adv k]
    advanced_keys[of adv]
  by (auto simp add: lookup_cache_ttl lookup_advanced lookup_cost_controls lookup_formats
      lookup_extraction_schema lookup_extraction_prompt lookup_extraction_profile
      lookup_wait_for lookup_screenshot lookup_enable_scroll)

theorem payload_omits_absent_options_witness:
  "no_null (build_scrape_payload (ex_client 3) ex_args)
   \<and> map_of (build_scrape_payload (ex_client 3) ex_args) ''cache_ttl'' = None
   \<and> map_of (build_scrape_payload (ex_client 3) ex_args) ''advanced'' = None
   \<and> map_of (build_scrape_payload (ex_client 3) ex_args) ''cost_controls'' = None
   \<and> map_of (build_scrape_payload (ex_client 3) ex_args) ''formats'' = None
   \<and> map_of (build_scrape_payload (ex_client 3) ex_args) ''extraction_schema'' = None
   \<and> map_of (build_scrape_payload (ex_client 3) ex_args) ''extraction_prompt'' = None
   \<and> map_of (build_scrape_payload (ex_client 3) ex_args) ''extraction_profile'' = None
   \<and> map_of (build_scrape_payload (ex_client 3) ex_args) ''wait_for'' = None
   \<and> map_of (build_scrape_payload (ex_client 3) ex_args) ''screenshot'' = None
   \<and> map_of (build_scrape_payload (ex_client 3) ex_args) ''enable_scroll'' = None
   \<and> map_of (build_scrape_payload (ex_client 3)
         (ex_args\<lparr>arg_advanced := Some ex_advanced,
                  arg_cost_controls := Some \<lparr>max_tier = None, prefer_cost = True,
                                              prefer_speed = False, fail_fast = False\<rparr>,
                  arg_enable_scroll := Some False\<rparr>)) ''enable_scroll'' = Some (JBool False)
   \<and> no_null (CostControls_to_dict \<lparr>max_tier = None, prefer_cost = True,
                                     prefer_speed = False, fail_fast = False\<rparr>)
   \<and> map fst (AdvancedOptions_to_dict ex_advanced)
       = [''render_js'', ''screenshot'', ''markdown'', ''generate_pdf'', ''ocr'',
          ''use_proxy'', ''use_own_proxy'', ''use_system_proxy'',
          ''proxy_integration_id'', ''proxy_country'', ''wait_condition'',
          ''remove_cookie_banners'']
   \<and> map_of (AdvancedOptions_to_dict ex_advanced) ''proxy_country'' = Some JNull"
  using payload_omits_absent_options[of "ex_client 3" ex_args]
    payload_omits_absent_options[of "ex_client 3"
      "ex_args\<lparr>arg_advanced := Some ex_advanced,
                arg_cost_controls := Some \<lparr>max_tier = None, prefer_cost = True,
                                            prefer_speed = False, fail_fast = False\<rparr>,
                arg_enable_scroll := Some False\<rparr>"
      False "\<lparr>max_tier = None, prefer_cost = True, prefer_speed = False, fail_fast = False\<rparr>"
      ex_advanced "''proxy_country''"]
  by (simp add: ex_args_def ex_advanced_def)

text \<open>
  The payload of \<^verbatim>\<open>scrape(url, advanced=AdvancedOptions(), enable_scroll=False)\<close>
  has an advanced-options block whose \<^verbatim>\<open>proxy_integration_id\<close> and
  \<^verbatim>\<open>proxy_country\<close> are null, and it has the key \<^verbatim>\<open>enable_scroll\<close> although the
  flag is false.
\<close>

theorem advanced_block_null_counterexample:
  "map_of (build_scrape_payload (ex_client 3)
             (ex_args\<lparr>arg_advanced := Some ex_advanced, arg_enable_scroll := Some False\<rparr>))
      ''advanced'' = Some (JObj (AdvancedOptions_to_dict ex_advanced))
   \<and> map_of (AdvancedOptions_to_dict ex_advanced) ''proxy_integration_id'' = Some JNull
   \<and> map_of (AdvancedOptions_to_dict ex_advanced) ''proxy_country'' = Some JNull
   \<and> map_of (build_scrape_payload (ex_client 3)
             (ex_args\<lparr>arg_advanced := Some ex_advanced, arg_enable_scroll := Some False\<rparr>))
      ''enable_scroll'' = Some (JBool False)"
  by (simp add: lookup_advanced lookup_enable_scroll AdvancedOptions_to_dict_def
      ex_advanced_def)

section \<open>Properties of the response parser\<close>

lemma parse_escalations_objects:
  "parse_escalations (map JObj xs) =
     Inr (map (\<lambda>x. \<lparr>tier = get_default x ''tier'' (JStr ''1''),
                      esc_result = get_default x ''result'' (JStr ''success''),
                      credits = get_default x ''credits'' (JInt 0),
                      duration_ms = get x ''duration_ms'',
                      esc_error = get x ''error''\<rparr>) xs)"
  by (induction xs) simp_all

text \<open>
  Claim C9, as amended. The parser maps the empty JSON object to the result made of the
  documented defaults: status 200, empty content, empty metadata and header maps, zero
  counters, extraction method \<^verbatim>\<open>algorithmic\<close>, billing tier \<^verbatim>\<open>1\<close>. It maps every
  JSON object whose \<^verbatim>\<open>billing\<close> entry is absent or an object, and whose
  \<^verbatim>\<open>escalations\<close> entry is absent or a list of objects, to a result without error,
  each of these fields being the entry of the payload or its default; the escalations
  are mapped element by element in the order of the list, a missing tier becoming
  \<^verbatim>\<open>1\<close> and a missing result \<^verbatim>\<open>success\<close>.
\<close>

theorem parse_applies_defaults:
  "parse_scrape_response (JObj []) =
     Inr \<lparr>url = JStr [], status_code = JInt 200, content = JStr [], title = JNull,
          author = JNull, published_at = JNull, metadata = JObj [], headers = JObj [],
          cached = JBool False, cached_at = JNull, expires_at = JNull,
          response_time_ms = JInt 0, size_bytes = JInt 0, raw_html = JNull,
          screenshot_url = JNull, pdf_url = JNull, ocr_results = JNull, proxy_used = JNull,
          filtered_content = JNull,
          billing = Some \<lparr>total_credits = JInt 0, tier_used = JStr ''1'', escalations = [],
                           savings = JInt 0, optimization_suggestion = JNull,
                           byop_applied = JBool False, byop_discount_percent = JNull,
                           original_cost_microcents = JNull,
                           final_cost_microcents = JNull\<rparr>,
          extraction_method = JStr ''algorithmic'', method_details = JNull\<rparr>
   \<and> ((map_of d ''billing'' = None \<and> bd = [] \<or> map_of d ''billing'' = Some (JObj bd))
       \<and> (map_of bd ''escalations'' = None \<and> xs = []
            \<or> map_of bd ''escalations'' = Some (JList (map JObj xs)))
      \<longrightarrow> (\<exists>res b. parse_scrape_response (JObj d) = Inr res \<and> billing res = Some b
             \<and> status_code res = get_default d ''status_code'' (JInt 200)
             \<and> content res = get_default d ''content'' (JStr [])
             \<and> metadata res = get_default d ''metadata'' (JObj [])
             \<and> headers res = get_default d ''headers'' (JObj [])
             \<and> response_time_ms res = get_default d ''response_time_ms'' (JInt 0)
             \<and> size_bytes res = get_default d ''size_bytes'' (JInt 0)
             \<and> extraction_method res
                 = get_default d ''extraction_method'' (JStr ''algorithmic'')
             \<and> total_credits b = get_default bd ''total_credits'' (JInt 0)
             \<and> tier_used b = get_default bd ''tier_used'' (JStr ''1'')
             \<and> escalations b =
                 map (\<lambda>x. \<lparr>tier = get_default x ''tier'' (JStr ''1''),
                            esc_result = get_default x ''result'' (JStr ''success''),
                            credits = get_default x ''credits'' (JInt 0),
                            duration_ms = get x ''duration_ms'',
                            esc_error = get x ''error''\<rparr>) xs))"
proof (intro conjI impI)
  show "parse_scrape_response (JObj []) =
     Inr \<lparr>url = JStr [], status_code = JInt 200, content = JStr [], title = JNull,
          author = JNull, published_at = JNull, metadata = JObj [], headers = JObj [],
          cached = JBool False, cached_at = JNull, expires_at = JNull,
          response_time_ms = JInt 0, size_bytes = JInt 0, raw_html = JNull,
          screenshot_url = JNull, pdf_url = JNull, ocr_results = JNull, proxy_used = JNull,
          filtered_content = JNull,
          billing = Some \<lparr>total_credits = JInt 0, tier_used = JStr ''1'', escalations = [],
                           savings = JInt 0, optimization_suggestion = JNull,
                           byop_applied = JBool False, byop_discount_percent = JNull,
                           original_cost_microcents = JNull,
                           final_cost_microcents = JNull\<rparr>,
          extraction_method = JStr ''algorithmic'', method_details = JNull\<rparr>"
    by (simp add: parse_scrape_response_def parse_billing_def get_default_def get_def)
next
  assume a: "(map_of d ''billing'' = None \<and> bd = [] \<or> map_of d ''billing'' = Some (JObj bd))
       \<and> (map_of bd ''escalations'' = None \<and> xs = []
            \<or> map_of bd ''escalations'' = Some (JList (map JObj xs)))"
  then have b: "get_default d ''billing'' (JObj []) = JObj bd"
    by (auto simp: get_default_def)
  from a have e: "py_iter (get_default bd ''escalations'' (JList [])) = Inr (map JObj xs)"
    by (auto simp: get_default_def)
  show "\<exists>res b. parse_scrape_response (JObj d) = Inr res \<and> billing res = Some b
             \<and> status_code res = get_default d ''status_code'' (JInt 200)
             \<and> content res = get_default d ''content'' (JStr [])
             \<and> metadata res = get_default d ''metadata'' (JObj [])
             \<and> headers res = get_default d ''headers'' (JObj [])
             \<and> response_time_ms res = get_default d ''response_time_ms'' (JInt 0)
             \<and> size_bytes res = get_default d ''size_bytes'' (JInt 0)
             \<and> extraction_method res
                 = get_default d ''extraction_method'' (JStr ''algorithmic'')
             \<and> total_credits b = get_default bd ''total_credits'' (JInt 0)
             \<and> tier_used b = get_default bd ''tier_used'' (JStr ''1'')
             \<and> escalations b =
                 map (\<lambda>x. \<lparr>tier = get_default x ''tier'' (JStr ''1''),
                            esc_result = get_default x ''result'' (JStr ''success''),
                            credits = get_default x ''credits'' (JInt 0),
                            duration_ms = get x ''duration_ms'',
                            esc_error = get x ''error''\<rparr>) xs"
    by (simp add: parse_scrape_response_def parse_billing_def b e parse_escalations_objects)
qed

theorem parse_applies_defaults_witness:
  "(case parse_scrape_response
           (JObj [(''url'', JStr ''https://example.com''),
                  (''billing'', JObj [(''total_credits'', JInt 4),
                     (''escalations'',
                        JList [JObj [], JObj [(''tier'', JStr ''3''),
                                              (''result'', JStr ''failed'')]])])]) of
      Inl e \<Rightarrow> False
    | Inr res \<Rightarrow>
        url res = JStr ''https://example.com'' \<and> status_code res = JInt 200
        \<and> content res = JStr [] \<and> extraction_method res = JStr ''algorithmic''
        \<and> map_option tier_used (billing res) = Some (JStr ''1'')
        \<and> map_option escalations (billing res) =
            Some [\<lparr>tier = JStr ''1'', esc_result = JStr ''success'', credits = JInt 0,
                    duration_ms = JNull, esc_error = JNull\<rparr>,
                  \<lparr>tier = JStr ''3'', esc_result = JStr ''failed'', credits = JInt 0,
                    duration_ms = JNull, esc_error = JNull\<rparr>])"
  using parse_applies_defaults[of
      "[(''url'', JStr ''https://example.com''),
        (''billing'', JObj [(''total_credits'', JInt 4),
           (''escalations'',
              JList [JObj [], JObj [(''tier'', JStr ''3''), (''result'', JStr ''failed'')]])])]"
      "[(''total_credits'', JInt 4),
        (''escalations'',
           JList [JObj [], JObj [(''tier'', JStr ''3''), (''result'', JStr ''failed'')]])]"
      "[[], [(''tier'', JStr ''3''), (''result'', JStr ''failed'')]]"]
  by (auto simp add: get_default_def get_def parse_scrape_response_def parse_billing_def)

text \<open>
  Not every JSON payload parses: a null \<^verbatim>\<open>billing\<close> entry, a null element of the
  escalations and a null \<^verbatim>\<open>escalations\<close> entry each make the parser raise.
\<close>

theorem parse_null_billing_counterexample:
  "parse_scrape_response (JObj [(''billing'', JNull)]) = Inl PyAttributeError
   \<and> parse_scrape_response
       (JObj [(''billing'', JObj [(''escalations'', JList [JNull])])]) = Inl PyAttributeError
   \<and> parse_scrape_response
       (JObj [(''billing'', JObj [(''escalations'', JNull)])]) = Inl PyTypeError"
  by (simp add: parse_scrape_response_def parse_billing_def get_default_def)

end
